theory Spec2Isabelle
  imports Main
begin

section \<open>JavaScript values and errors\<close>

text \<open>
  The sources are JavaScript, so the data that reaches them from outside (parsed
  message bodies, instance details, response bodies of the inventory) has no static
  shape. It is modelled as \<open>jsval\<close>; an object is the list of its own properties,
  and a number is an integer.
\<close>

datatype jsval =
    Undefined
  | Null
  | Bool bool
  | Num int
  | Str string
  | Arr "jsval list"
  | Obj "(string \<times> jsval) list"

text \<open>
  Every \<^verbatim>\<open>throw\<close> and every rejected promise of the source is a value of
  \<open>error\<close>. \<open>TypeError\<close> is what reading a property of \<^verbatim>\<open>null\<close> or
  \<^verbatim>\<open>undefined\<close>, or calling something that is not a function, raises;
  \<open>ReferenceError x\<close> is what reading the identifier \<open>x\<close> raises when no enclosing
  scope declares it; \<open>HttpError c\<close> is a failed request carrying
  \<^verbatim>\<open>statusCode\<close> \<open>c\<close>; \<open>Rejected m\<close> is a rejection with
  \<^verbatim>\<open>{message: m}\<close>; \<open>Thrown m\<close> is \<^verbatim>\<open>new Error(m)\<close>.
\<close>

datatype error =
    TypeError
  | ReferenceError string
  | HttpError nat
  | NetworkError
  | Rejected string
  | Thrown string
  | ValidationRejected string "string list"
  | InvalidDetails "string list"

text \<open>Truthiness, as \<^verbatim>\<open>if (v)\<close>, \<^verbatim>\<open>!v\<close>, \<^verbatim>\<open>&&\<close> and \<^verbatim>\<open>||\<close> test it.\<close>

fun truthy :: "jsval \<Rightarrow> bool" where
  "truthy Undefined = False"
| "truthy Null = False"
| "truthy (Bool b) = b"
| "truthy (Num n) = (n \<noteq> 0)"
| "truthy (Str s) = (s \<noteq> [])"
| "truthy (Arr xs) = True"
| "truthy (Obj ps) = True"

text \<open>
  A property read \<^verbatim>\<open>v.k\<close> or \<^verbatim>\<open>v[k]\<close>. On \<^verbatim>\<open>null\<close> and \<^verbatim>\<open>undefined\<close> it
  throws; on an object it is the property, or \<^verbatim>\<open>undefined\<close>; arrays and strings have
  \<^verbatim>\<open>length\<close>; the other names the sources read exist on no primitive.
\<close>

fun get_prop :: "jsval \<Rightarrow> string \<Rightarrow> error + jsval" where
  "get_prop Undefined k = Inl TypeError"
| "get_prop Null k = Inl TypeError"
| "get_prop (Obj ps) k = (case map_of ps k of None \<Rightarrow> Inr Undefined | Some v \<Rightarrow> Inr v)"
| "get_prop (Arr xs) k = (if k = ''length'' then Inr (Num (int (length xs))) else Inr Undefined)"
| "get_prop (Str s) k = (if k = ''length'' then Inr (Num (int (length s))) else Inr Undefined)"
| "get_prop (Bool b) k = Inr Undefined"
| "get_prop (Num n) k = Inr Undefined"

text \<open>A chain of reads \<^verbatim>\<open>v.a.b.c\<close>, throwing at the first link that is not there.\<close>

fun prop_path :: "jsval \<Rightarrow> string list \<Rightarrow> error + jsval" where
  "prop_path v [] = Inr v"
| "prop_path v (k # ks) = (case get_prop v k of Inl e \<Rightarrow> Inl e | Inr w \<Rightarrow> prop_path w ks)"

text \<open>\<^verbatim>\<open>String.prototype.split\<close> with a one-character separator.\<close>

fun split_on :: "char \<Rightarrow> string \<Rightarrow> string list" where
  "split_on c [] = [[]]"
| "split_on c (x # xs) =
     (if x = c then [] # split_on c xs
      else (case split_on c xs of
              [] \<Rightarrow> [[x]]
            | y # ys \<Rightarrow> (x # y) # ys))"

text \<open>\<^verbatim>\<open>Array.prototype.join\<close> on strings.\<close>

fun join_with :: "string \<Rightarrow> string list \<Rightarrow> string" where
  "join_with sep [] = []"
| "join_with sep [x] = x"
| "join_with sep (x # y # ys) = x @ sep @ join_with sep (y # ys)"

text \<open>
  The conversion of a value to a string, as \<^verbatim>\<open>+\<close> with a string operand and
  \<^verbatim>\<open>join\<close> do it.
\<close>

definition digit_char :: "nat \<Rightarrow> char" where
  "digit_char d = (''0123456789'' ! (d mod 10))"

function show_nat :: "nat \<Rightarrow> string" where
  "show_nat n = (if n < 10 then [digit_char n] else show_nat (n div 10) @ [digit_char (n mod 10)])"
  by pat_completeness auto
termination
  by (relation "measure (\<lambda>n. n)") auto

definition show_int :: "int \<Rightarrow> string" where
  "show_int i = (if i < 0 then CHR ''-'' # show_nat (nat (- i)) else show_nat (nat i))"

fun to_string :: "jsval \<Rightarrow> string" where
  "to_string Undefined = ''undefined''"
| "to_string Null = ''null''"
| "to_string (Bool b) = (if b then ''true'' else ''false'')"
| "to_string (Num n) = show_int n"
| "to_string (Str s) = s"
| "to_string (Arr xs) =
     join_with '','' (map (\<lambda>x. if x = Undefined \<or> x = Null then [] else to_string x) xs)"
| "to_string (Obj ps) = ''[object Object]''"

text \<open>
  The conversion of a value to a number, as \<^verbatim>\<open><\<close>, \<^verbatim>\<open>>\<close>, \<^verbatim>\<open>%\<close> and
  \<^verbatim>\<open>==\<close> with a number operand do it; \<open>None\<close> is \<^verbatim>\<open>NaN\<close>. The numbers of the
  model are the integers, so a string converts when it is an integer in decimal
  digits, with white space around it and a sign before it allowed; an array or object
  converts as its string does.
\<close>

definition is_space :: "char \<Rightarrow> bool" where
  "is_space c = (c \<in> set [CHR 0x09, CHR 0x0A, CHR 0x0B, CHR 0x0C, CHR 0x0D, CHR '' ''])"

definition trim :: "string \<Rightarrow> string" where
  "trim s = rev (dropWhile is_space (rev (dropWhile is_space s)))"

definition digits_to_nat :: "string \<Rightarrow> nat option" where
  "digits_to_nat ds =
     (if ds \<noteq> [] \<and> list_all (\<lambda>c. c \<in> set ''0123456789'') ds
      then Some (foldl (\<lambda>n c. 10 * n + (of_char c - 48)) 0 ds)
      else None)"

definition string_to_number :: "string \<Rightarrow> int option" where
  "string_to_number s =
     (case trim s of
        [] \<Rightarrow> Some 0
      | c # cs \<Rightarrow>
          if c = CHR ''-'' then map_option (\<lambda>n. - int n) (digits_to_nat cs)
          else if c = CHR ''+'' then map_option int (digits_to_nat cs)
          else map_option int (digits_to_nat (c # cs)))"

fun to_number :: "jsval \<Rightarrow> int option" where
  "to_number Undefined = None"
| "to_number Null = Some 0"
| "to_number (Bool b) = Some (if b then 1 else 0)"
| "to_number (Num n) = Some n"
| "to_number (Str s) = string_to_number s"
| "to_number (Arr xs) = string_to_number (to_string (Arr xs))"
| "to_number (Obj ps) = None"

text \<open>\<^verbatim>\<open>String.prototype.indexOf(needle) >= 0\<close>: the needle occurs in the string.\<close>

fun starts_with :: "string \<Rightarrow> string \<Rightarrow> bool" where
  "starts_with [] ys = True"
| "starts_with (x # xs) [] = False"
| "starts_with (x # xs) (y # ys) = (x = y \<and> starts_with xs ys)"

fun contains :: "string \<Rightarrow> string \<Rightarrow> bool" where
  "contains needle [] = starts_with needle []"
| "contains needle (y # ys) = (starts_with needle (y # ys) \<or> contains needle ys)"

section \<open>mapper.js\<close>

text \<open>
  \<^verbatim>\<open>validateMessage\<close> (lines 21-50), statement by statement: the read of
  \<^verbatim>\<open>details.InstanceId\<close> (line 27) comes first, the null/undefined guard (line 33)
  second, the DNS name checks last. \<^verbatim>\<open>fqdn.split\<close> is a function only when the
  name is a string.
\<close>

definition validateMessage :: "jsval \<Rightarrow> error + string list" where
  "validateMessage details =
     (case get_prop details ''InstanceId'' of
        Inl e \<Rightarrow> Inl e
      | Inr instanceId \<Rightarrow>
          let validationErrors =
                (case instanceId of
                   Str s \<Rightarrow> if length s = 0 then [''Instance ID not present''] else []
                 | _ \<Rightarrow> [''Instance ID not present''])
          in if details = Undefined \<or> details = Null
             then Inr (validationErrors @ [''Instance details not present''])
             else (case get_prop details ''PrivateDnsName'' of
                     Inl e \<Rightarrow> Inl e
                   | Inr dns \<Rightarrow>
                       if \<not> truthy dns
                       then Inr (validationErrors @ [''Instance not named''])
                       else (case dns of
                               Str fqdn \<Rightarrow>
                                 if length (split_on CHR ''.'' fqdn) < 2
                                 then Inr (validationErrors @ [''Instance DNS name not an FQDN''])
                                 else Inr validationErrors
                             | _ \<Rightarrow> Inl TypeError)))"

text \<open>
  \<^verbatim>\<open>instanceToNode\<close> (lines 56-76). \<^verbatim>\<open>parsedName.shift()\<close> is the first segment
  of the name. The node literal has no \<^verbatim>\<open>domain\<close> property.
\<close>

definition instanceToNode :: "jsval \<Rightarrow> error + jsval" where
  "instanceToNode instance =
     (case get_prop instance ''InstanceId'' of
        Inl e \<Rightarrow> Inl e
      | Inr instanceId \<Rightarrow>
     (case get_prop instance ''PrivateDnsName'' of
        Inl e \<Rightarrow> Inl e
      | Inr machineName \<Rightarrow>
     (case machineName of
        Str fqdn \<Rightarrow>
          (case get_prop instance ''status'' of
             Inl e \<Rightarrow> Inl e
           | Inr st \<Rightarrow>
               Inr (Obj [(''name'', instanceId),
                         (''machineName'', machineName),
                         (''hostname'', (case split_on CHR ''.'' fqdn of
                                           [] \<Rightarrow> Undefined
                                         | h # _ \<Rightarrow> Str h)),
                         (''aggregateRotationStatus'', Bool (st = Str ''down'')),
                         (''tags'', Obj [(''AWS Instance ID'', instanceId)])]))
      | _ \<Rightarrow> Inl TypeError)))"

section \<open>listener.js\<close>

definition EC2_INSTANCE_LB_REGISTRATION_EVENT_TYPE :: string where
  "EC2_INSTANCE_LB_REGISTRATION_EVENT_TYPE = ''AWS API Call via CloudTrail''"

text \<open>One message as the queue delivers it.\<close>

record sqs_message =
  Body :: string
  ReceiptHandle :: string

definition sqs_object :: "sqs_message \<Rightarrow> jsval" where
  "sqs_object m = Obj [(''Body'', Str (Body m)), (''ReceiptHandle'', Str (ReceiptHandle m))]"

text \<open>
  What the listener does to the outside, in the order it does it: the events it emits,
  the deletion of a message, and the calls to the cloud control plane.
\<close>

datatype listener_effect =
    Emit_message sqs_message
  | Emit_instance_rotate_in string "jsval list"
  | Emit_instance_rotate_out string "jsval list"
  | Sqs_deleteMessage string
  | Aws_describeAutoScalingInstances "jsval list"
  | Aws_describeLoadBalancers
  | Aws_describeInstances "jsval list"

text \<open>
  The cloud control plane is outside the repository: each call is a parameter that
  gives the response or the rejection.
\<close>

record aws =
  describeAutoScalingInstances :: "jsval list \<Rightarrow> error + jsval"
  describeLoadBalancers :: "error + jsval"
  describeInstances :: "jsval list \<Rightarrow> error + jsval"

text \<open>
  Lines 153-160. \<open>json_parse\<close> is \<^verbatim>\<open>JSON.parse\<close> (\<open>None\<close> when it throws), a
  parameter. The \<^verbatim>\<open>try\<close> block assigns \<^verbatim>\<open>message\<close> once or twice; whatever
  throws inside it is caught, and \<^verbatim>\<open>message\<close> keeps the last value assigned.
\<close>

definition parse_message :: "(jsval \<Rightarrow> jsval option) \<Rightarrow> sqs_message \<Rightarrow> jsval" where
  "parse_message json_parse raw =
     (case json_parse (Str (Body raw)) of
        None \<Rightarrow> sqs_object raw
      | Some m \<Rightarrow>
          (case get_prop m ''Message'' of
             Inl e \<Rightarrow> m
           | Inr inner \<Rightarrow>
               if truthy inner
               then (case json_parse inner of None \<Rightarrow> m | Some m' \<Rightarrow> m')
               else m))"

text \<open>
  \<^verbatim>\<open>rp.instances.filter(instance => instance.instanceId)\<close>: the callback reads a
  property of every element, and the result is a new array.
\<close>

fun filter_instanceId :: "jsval list \<Rightarrow> error + jsval list" where
  "filter_instanceId [] = Inr []"
| "filter_instanceId (x # xs) =
     (case get_prop x ''instanceId'' of
        Inl e \<Rightarrow> Inl e
      | Inr v \<Rightarrow>
          (case filter_instanceId xs of
             Inl e \<Rightarrow> Inl e
           | Inr ys \<Rightarrow> Inr (if truthy v then x # ys else ys)))"

text \<open>
  \<^verbatim>\<open>messageValidate\<close> (lines 234-241). The result of the \<^verbatim>\<open>&&\<close> chain is used
  for its truthiness only, so the model returns that. The second operand is the array
  that \<^verbatim>\<open>filter\<close> returns, not its length.
\<close>

definition messageValidate :: "jsval \<Rightarrow> error + bool" where
  "messageValidate message =
     (case get_prop message ''detail'' of Inl e \<Rightarrow> Inl e | Inr detail \<Rightarrow>
     (case get_prop detail ''requestParameters'' of Inl e \<Rightarrow> Inl e | Inr rp \<Rightarrow>
     (case get_prop rp ''instances'' of Inl e \<Rightarrow> Inl e | Inr instances \<Rightarrow>
        if \<not> truthy instances then Inr False
        else (case instances of
                Arr xs \<Rightarrow>
                  (case filter_instanceId xs of
                     Inl e \<Rightarrow> Inl e
                   | Inr filtered \<Rightarrow>
                       if \<not> truthy (Arr filtered) then Inr False
                       else (case get_prop rp ''loadBalancerName'' of Inl e \<Rightarrow> Inl e | Inr lb \<Rightarrow>
                               if \<not> truthy lb then Inr False
                               else (case get_prop detail ''eventName'' of Inl e \<Rightarrow> Inl e
                                     | Inr eventName \<Rightarrow> Inr (truthy eventName))))
              | _ \<Rightarrow> Inl TypeError))))"

text \<open>
  \<^verbatim>\<open>resolveLoadBalancer\<close> (lines 250-285). Its final \<^verbatim>\<open>catch\<close> turns every
  failure into \<^verbatim>\<open>null\<close>, and the caller drops the value, so only the calls it makes
  are visible.
\<close>

definition resolveLoadBalancer :: "aws \<Rightarrow> jsval \<Rightarrow> listener_effect list" where
  "resolveLoadBalancer a instanceId =
     Aws_describeAutoScalingInstances [instanceId] #
     (case describeAutoScalingInstances a [instanceId] of
        Inl e \<Rightarrow> []
      | Inr autoScaleInstances \<Rightarrow>
          if truthy autoScaleInstances \<and>
             (case get_prop autoScaleInstances ''length'' of
                Inr len \<Rightarrow> (case to_number len of Some n \<Rightarrow> 0 < n | None \<Rightarrow> False)
              | Inl e \<Rightarrow> False)
          then []
          else [Aws_describeLoadBalancers])"

text \<open>Lines 187-199: the instances of every reservation, each with a truthy id.\<close>

fun collect_instances :: "jsval list \<Rightarrow> error + jsval list" where
  "collect_instances [] = Inr []"
| "collect_instances (i # is) =
     (case get_prop i ''InstanceId'' of
        Inl e \<Rightarrow> Inl e
      | Inr v \<Rightarrow>
          if truthy v
          then (case collect_instances is of Inl e \<Rightarrow> Inl e | Inr js \<Rightarrow> Inr (i # js))
          else Inl (Thrown ''Did no retreive expected valid instance details.''))"

fun collect_reservations :: "jsval list \<Rightarrow> error + jsval list" where
  "collect_reservations [] = Inr []"
| "collect_reservations (r # rs) =
     (case get_prop r ''Instances'' of
        Inl e \<Rightarrow> Inl e
      | Inr (Arr is) \<Rightarrow>
          (case collect_instances is of
             Inl e \<Rightarrow> Inl e
           | Inr js \<Rightarrow>
               (case collect_reservations rs of Inl e \<Rightarrow> Inl e | Inr ks \<Rightarrow> Inr (js @ ks)))
      | Inr _ \<Rightarrow> Inl TypeError)"

text \<open>
  An assignment \<^verbatim>\<open>o.k = v\<close> to an object. Both callers assign to a value that is an
  object or an array (the sources are in strict mode, where assigning a property to any
  other value throws); an array is left as it is, the model keeps no named property
  for it.
\<close>

definition is_object :: "jsval \<Rightarrow> bool" where
  "is_object v = (case v of Obj ps \<Rightarrow> True | Arr xs \<Rightarrow> True | _ \<Rightarrow> False)"

fun set_prop :: "jsval \<Rightarrow> string \<Rightarrow> jsval \<Rightarrow> jsval" where
  "set_prop (Obj ps) k v =
     Obj (if k \<in> fst ` set ps then map (\<lambda>(k', w). if k' = k then (k', v) else (k', w)) ps
          else ps @ [(k, v)])"
| "set_prop x k v = x"

text \<open>
  \<^verbatim>\<open>processMessage\<close> (lines 145-227). The left component is \<open>Inl\<close> when the call
  throws, and \<open>Inr\<close> when it returns (the promise it may return always fulfils:
  its last \<^verbatim>\<open>catch\<close> only logs). The right component is what it did.
\<close>

definition processMessage ::
  "(jsval \<Rightarrow> jsval option) \<Rightarrow> aws \<Rightarrow> sqs_message \<Rightarrow> (error + unit) \<times> listener_effect list" where
  "processMessage json_parse a raw =
     (let deletionToken = ReceiptHandle raw;
          message = parse_message json_parse raw
      in case get_prop message ''detail-type'' of
           Inl e \<Rightarrow> (Inl e, [Emit_message raw])
         | Inr detail_type \<Rightarrow>
             if detail_type = Str EC2_INSTANCE_LB_REGISTRATION_EVENT_TYPE
             then (case messageValidate message of
                     Inl e \<Rightarrow> (Inl e, [Emit_message raw])
                   | Inr False \<Rightarrow>
                       (Inl (Thrown ''LB Registration event does not contain valid data''),
                        [Emit_message raw])
                   | Inr True \<Rightarrow>
                      (case prop_path message [''detail'', ''requestParameters'', ''instances''] of
                         Inr (Arr xs) \<Rightarrow>
                           (let instanceIds =
                                  map (\<lambda>i. case get_prop i ''instanceId'' of Inr v \<Rightarrow> v | Inl e \<Rightarrow> Undefined) xs;
                                eventName =
                                  (case prop_path message [''detail'', ''eventName''] of
                                     Inr v \<Rightarrow> v | Inl e \<Rightarrow> Undefined);
                                region =
                                  (case get_prop message ''region'' of Inr v \<Rightarrow> v | Inl e \<Rightarrow> Undefined);
                                first_id = (case instanceIds of [] \<Rightarrow> Undefined | i # _ \<Rightarrow> i);
                                calls = resolveLoadBalancer a first_id @ [Aws_describeInstances instanceIds];
                                found =
                                  (case describeInstances a instanceIds of
                                     Inl e \<Rightarrow> Inl e
                                   | Inr instanceDetails \<Rightarrow>
                                       (case get_prop instanceDetails ''Reservations'' of
                                          Inl e \<Rightarrow> Inl e
                                        | Inr (Arr rs) \<Rightarrow> collect_reservations rs
                                        | Inr _ \<Rightarrow> Inl TypeError))
                            in case found of
                                 Inl e \<Rightarrow> (Inr (), Emit_message raw # calls)
                               | Inr instances \<Rightarrow>
                                   (let stamped = map (\<lambda>i. set_prop i ''region'' region) instances
                                    in if eventName = Str ''DeregisterInstancesFromLoadBalancer''
                                       then (Inr (), Emit_message raw # calls @
                                               [Emit_instance_rotate_out deletionToken stamped])
                                       else if eventName = Str ''RegisterInstancesWithLoadBalancer''
                                       then (Inr (), Emit_message raw # calls @
                                               [Emit_instance_rotate_in deletionToken stamped])
                                       else (Inr (), Emit_message raw # calls)))
                       | _ \<Rightarrow> (Inl TypeError, [Emit_message raw])))
             else (Inr (), [Emit_message raw, Sqs_deleteMessage deletionToken]))"

section \<open>seisoClient.js: requests\<close>

text \<open>\<^verbatim>\<open>[a, b, c].join('/')\<close>: \<^verbatim>\<open>null\<close> and \<^verbatim>\<open>undefined\<close> become empty.\<close>

definition join_path :: "jsval list \<Rightarrow> string" where
  "join_path xs =
     join_with ''/'' (map (\<lambda>x. if x = Undefined \<or> x = Null then [] else to_string x) xs)"

text \<open>\<^verbatim>\<open>===\<close> between a value of the caller and a value of a response: two objects or
  arrays that were built apart are never the same one.\<close>

fun strict_equal :: "jsval \<Rightarrow> jsval \<Rightarrow> bool" where
  "strict_equal (Arr xs) y = False"
| "strict_equal (Obj ps) y = False"
| "strict_equal x y = (x = y)"

text \<open>\<^verbatim>\<open>xs.indexOf(v) < 0\<close>.\<close>

definition not_indexOf :: "jsval list \<Rightarrow> jsval \<Rightarrow> bool" where
  "not_indexOf xs v = list_all (\<lambda>x. \<not> strict_equal x v) xs"

definition ERROR_NOT_FOUND :: nat where "ERROR_NOT_FOUND = 404"
definition ERROR_CONFLICT :: nat where "ERROR_CONFLICT = 409"

text \<open>
  One request as \<^verbatim>\<open>seisoRequest\<close> hands it to the HTTP library: the method, the
  resource path under the base URL, the query pairs in order, and the JSON payload
  (\<open>Undefined\<close> when there is none).
\<close>

record request =
  rq_method :: string
  rq_resource :: string
  rq_query :: "(string \<times> jsval) list"
  rq_body :: jsval

text \<open>
  The inventory is outside the repository. It is a parameter: given the requests made
  so far and the next one, it gives the decoded response body, or what the HTTP library
  rejects with (\<open>HttpError c\<close> for status \<open>c\<close>).
\<close>

type_synonym remote = "request list \<Rightarrow> request \<Rightarrow> error + jsval"

text \<open>
  An asynchronous operation of the client: from the requests made so far to its
  fulfilment (\<open>Inr\<close>) or rejection (\<open>Inl\<close>) and the requests made by then.
\<close>

type_synonym 'a io = "request list \<Rightarrow> (error + 'a) \<times> request list"

definition resolve :: "'a \<Rightarrow> 'a io" where
  "resolve x = (\<lambda>log. (Inr x, log))"

definition reject :: "error \<Rightarrow> 'a io" where
  "reject e = (\<lambda>log. (Inl e, log))"

text \<open>A value computed without a request, which may throw.\<close>

definition attempt :: "error + 'a \<Rightarrow> 'a io" where
  "attempt r = (\<lambda>log. (r, log))"

text \<open>\<^verbatim>\<open>p.then(f)\<close> and \<^verbatim>\<open>p.catch(h)\<close>.\<close>

definition and_then :: "'a io \<Rightarrow> ('a \<Rightarrow> 'b io) \<Rightarrow> 'b io" where
  "and_then p f = (\<lambda>log. case p log of (Inl e, log') \<Rightarrow> (Inl e, log') | (Inr x, log') \<Rightarrow> f x log')"

definition or_catch :: "'a io \<Rightarrow> (error \<Rightarrow> 'a io) \<Rightarrow> 'a io" where
  "or_catch p h = (\<lambda>log. case p log of (Inl e, log') \<Rightarrow> h e log' | (Inr x, log') \<Rightarrow> (Inr x, log'))"

text \<open>
  \<^verbatim>\<open>Promise.all\<close> over the outcomes of its members, given in the order in which
  they settle: it rejects with the first rejection and fulfils when there is none.
\<close>

fun promise_all :: "(error + 'a) list \<Rightarrow> error + 'a list" where
  "promise_all [] = Inr []"
| "promise_all (Inl e # rs) = Inl e"
| "promise_all (Inr x # rs) = (case promise_all rs of Inl e \<Rightarrow> Inl e | Inr xs \<Rightarrow> Inr (x # xs))"

text \<open>
  Operations started one after the other, none awaiting another: every one makes its
  requests, whatever the others do, and has its own outcome.
\<close>

fun settle_each :: "'a io list \<Rightarrow> (error + 'a) list io" where
  "settle_each [] = resolve []"
| "settle_each (p # ps) =
     (\<lambda>log. case p log of
               (r, log') \<Rightarrow>
                 (case settle_each ps log' of
                    (Inr rs, log'') \<Rightarrow> (Inr (r # rs), log'')
                  | (Inl e, log'') \<Rightarrow> (Inl e, log'')))"

text \<open>
  The client-specific options of a call (\<^verbatim>\<open>method\<close>, \<^verbatim>\<open>ignoredErrorCodes\<close>) and
  the others, which go to the query string. Every call in the file passes an array
  for \<^verbatim>\<open>ignoredErrorCodes\<close> or nothing, and no \<^verbatim>\<open>page\<close> or \<^verbatim>\<open>size\<close>.
\<close>

record opts =
  o_method :: "string option"
  o_ignoredErrorCodes :: "nat list"
  o_query :: "(string \<times> jsval) list"

definition statusCode :: "error \<Rightarrow> nat option" where
  "statusCode e = (case e of HttpError c \<Rightarrow> Some c | _ \<Rightarrow> None)"

text \<open>Lines 960-968: a list response is unwrapped to its items.\<close>

definition unwrap_embedded :: "string \<Rightarrow> string \<Rightarrow> jsval \<Rightarrow> jsval" where
  "unwrap_embedded resource embeddedResourceName data =
     (if truthy data \<and> resource \<noteq> [] then
        (case get_prop data ''_embedded'' of
           Inr embedded \<Rightarrow>
             if truthy embedded
             then (case get_prop embedded embeddedResourceName of Inr items \<Rightarrow> items | Inl e \<Rightarrow> data)
             else data
         | Inl e \<Rightarrow> data)
      else data)"

text \<open>
  \<^verbatim>\<open>seisoRequest\<close> (lines 888-970). A \<^verbatim>\<open>GET\<close> asks for page size 500 and page 1,
  sent as page 0; an ignored status code fulfils with \<^verbatim>\<open>undefined\<close> (\<^verbatim>\<open>data\<close> is
  never assigned then).
\<close>

definition seisoRequest ::
  "remote \<Rightarrow> string \<Rightarrow> jsval \<Rightarrow> opts option \<Rightarrow> string \<Rightarrow> jsval io" where
  "seisoRequest remote resource payload options embeddedResourceName =
     (\<lambda>log.
        let method = (case options of
                        Some opt \<Rightarrow> (case o_method opt of Some m \<Rightarrow> if m = [] then ''GET'' else m
                                   | None \<Rightarrow> ''GET'')
                      | None \<Rightarrow> ''GET'');
            embedded = (if embeddedResourceName = [] then resource else embeddedResourceName);
            defaults = (if method = ''GET'' then [(''size'', Num 500), (''page'', Num 0)] else []);
            passed = (case options of Some opt \<Rightarrow> o_query opt | None \<Rightarrow> []);
            kv_pairs = filter (\<lambda>(k, v). v \<noteq> Undefined) (defaults @ passed);
            rq = \<lparr>rq_method = method, rq_resource = resource, rq_query = kv_pairs,
                  rq_body = (if truthy payload then payload else Undefined)\<rparr>
        in case remote log rq of
             Inl err \<Rightarrow>
               (case options of
                  Some opt \<Rightarrow>
                    (case statusCode err of
                       Some c \<Rightarrow>
                         if c \<in> set (o_ignoredErrorCodes opt) then (Inr Undefined, log @ [rq])
                         else (Inl err, log @ [rq])
                     | None \<Rightarrow> (Inl err, log @ [rq]))
                | None \<Rightarrow> (Inl err, log @ [rq]))
           | Inr data \<Rightarrow> (Inr (unwrap_embedded resource embedded data), log @ [rq]))"

text \<open>\<^verbatim>\<open>getRestRecordLink\<close> and \<^verbatim>\<open>getRestRecordId\<close> (lines 853-859).\<close>

definition getRestRecordLink :: "jsval \<Rightarrow> error + jsval" where
  "getRestRecordLink record = prop_path record [''_links'', ''self'', ''href'']"

definition getRestRecordId :: "jsval \<Rightarrow> error + jsval" where
  "getRestRecordId record =
     (case getRestRecordLink record of
        Inl e \<Rightarrow> Inl e
      | Inr (Str link) \<Rightarrow>
          Inr (case rev (split_on CHR ''/'' link) of [] \<Rightarrow> Undefined | x # _ \<Rightarrow> Str x)
      | Inr _ \<Rightarrow> Inl TypeError)"

section \<open>common.js\<close>

text \<open>
  \<^verbatim>\<open>getProtocolFromPort\<close> (lines 6-25). Every test converts the port to a number;
  with \<^verbatim>\<open>NaN\<close> every test fails. The remainder of a negative number is never
  positive in JavaScript.
\<close>

definition getProtocolFromPort :: "jsval \<Rightarrow> jsval" where
  "getProtocolFromPort port =
     (case to_number port of
        Some n \<Rightarrow>
          if 0 \<le> n \<and> n mod 10 = 3 then Str ''https''
          else if 0 \<le> n \<and> n mod 100 = 80 then Str ''http''
          else if n = 22 then Str ''ssh''
          else if n = 24 \<or> n = 25 then Str ''ftp''
          else if n = 21 then Str ''smtp''
          else Null
      | None \<Rightarrow> Null)"

section \<open>seisoClient.js: the client\<close>

text \<open>
  What the constructor leaves behind once its two list requests have settled: the
  outcome of \<^verbatim>\<open>preCache\<close> and the two tables it fills.
\<close>

record seiso_client =
  c_preCache :: "error + unit"
  c_environments :: "(string \<times> jsval) list"
  c_dataCenters :: "(string \<times> jsval) list"

text \<open>
  The identifiers that the module declares, those the module wrapper of Node provides,
  and the globals the module uses. A function sees them together with its own
  parameters and variables. Node has no global named \<^verbatim>\<open>params\<close>, \<^verbatim>\<open>options\<close> or
  \<^verbatim>\<open>nodeRequest\<close>.
\<close>

definition module_scope :: "(string \<times> jsval) list" where
  "module_scope =
     [(''Promise'', Obj []), (''requestAsync'', Obj []), (''endecoder'', Obj []),
      (''common'', Obj []), (''ERROR_NOT_FOUND'', Num 404), (''ERROR_CONFLICT'', Num 409),
      (''SeisoClient'', Obj []), (''createSeisoClient'', Obj []),
      (''getRestRecordId'', Obj []), (''getRestRecordLink'', Obj []), (''genAPIReq'', Obj []),
      (''seisoRequest'', Obj []), (''preCacheDomainData'', Obj []),
      (''exports'', Obj []), (''module'', Obj []), (''require'', Obj []),
      (''console'', Obj []), (''process'', Obj []), (''Buffer'', Obj [])]"

text \<open>Reading an identifier: a \<^verbatim>\<open>ReferenceError\<close> when no scope declares it.\<close>

definition read_identifier :: "(string \<times> jsval) list \<Rightarrow> string \<Rightarrow> error + jsval" where
  "read_identifier scope x =
     (case map_of scope x of None \<Rightarrow> Inl (ReferenceError x) | Some v \<Rightarrow> Inr v)"

definition findNodesAsync :: "remote \<Rightarrow> jsval \<Rightarrow> jsval io" where
  "findNodesAsync remote options =
     and_then (attempt (get_prop options ''name'')) (\<lambda>name.
       seisoRequest remote ''nodes/search/findByName'' Null
         (Some \<lparr>o_method = None, o_ignoredErrorCodes = [ERROR_NOT_FOUND],
                o_query = [(''name'', name)]\<rparr>) [])"

definition getServiceAsync :: "remote \<Rightarrow> jsval \<Rightarrow> jsval io" where
  "getServiceAsync remote key =
     seisoRequest remote ''services/search/findByKey'' Null
       (Some \<lparr>o_method = None, o_ignoredErrorCodes = [ERROR_NOT_FOUND],
              o_query = [(''key'', key)]\<rparr>) []"

definition getServiceInstanceAsync :: "remote \<Rightarrow> jsval \<Rightarrow> jsval \<Rightarrow> jsval io" where
  "getServiceInstanceAsync remote serviceKey environment =
     seisoRequest remote ''serviceInstances/search/findByKey'' Null
       (Some \<lparr>o_method = None, o_ignoredErrorCodes = [ERROR_NOT_FOUND],
              o_query = [(''key'', Str (to_string serviceKey @ ''-'' @ to_string environment))]\<rparr>) []"

text \<open>
  \<^verbatim>\<open>getMachinesByNameAsync\<close> (lines 388-399). Its parameter is \<^verbatim>\<open>name\<close>; the
  argument list of its one call reads \<^verbatim>\<open>options.name\<close> (line 396), and the
  arguments are evaluated before \<^verbatim>\<open>seisoRequest\<close> is called.
\<close>

definition getMachinesByNameAsync :: "remote \<Rightarrow> jsval \<Rightarrow> jsval io" where
  "getMachinesByNameAsync remote name =
     (let scope = [(''self'', Obj []), (''name'', name)] @ module_scope
      in and_then (attempt (read_identifier scope ''options'')) (\<lambda>options.
         and_then (attempt (get_prop options ''name'')) (\<lambda>n.
           seisoRequest remote ''machines/search/findByName'' Null
             (Some \<lparr>o_method = None, o_ignoredErrorCodes = [ERROR_NOT_FOUND],
                    o_query = [(''name'', n)]\<rparr>) [])))"

definition createServiceAsync :: "remote \<Rightarrow> jsval \<Rightarrow> jsval io" where
  "createServiceAsync remote params =
     seisoRequest remote ''services/'' params
       (Some \<lparr>o_method = Some ''POST'', o_ignoredErrorCodes = [], o_query = []\<rparr>) []"

text \<open>
  The handler that the create and update operations of nodes and machines share in
  shape (for example lines 505-519), with the two messages of the operation.
\<close>

definition conflict_matches :: "string \<Rightarrow> string \<Rightarrow> jsval \<Rightarrow> jsval io" where
  "conflict_matches not_found multiple matching =
     (if \<not> truthy matching then reject (Rejected not_found)
      else (case matching of
              Arr xs \<Rightarrow>
                if 1 < length xs then reject (Rejected multiple)
                else resolve (case xs of [] \<Rightarrow> Undefined | x # _ \<Rightarrow> x)
            | _ \<Rightarrow> resolve matching))"

definition deleteNodeIpAddress :: "remote \<Rightarrow> jsval \<Rightarrow> jsval \<Rightarrow> jsval io" where
  "deleteNodeIpAddress remote node ipAddress =
     and_then (attempt (getRestRecordId ipAddress)) (\<lambda>rid.
       seisoRequest remote (join_path [Str ''nodeIpAddresses'', rid]) Null
         (Some \<lparr>o_method = Some ''DELETE'', o_ignoredErrorCodes = [ERROR_CONFLICT],
                o_query = []\<rparr>) [])"

definition createNodeIpAddress :: "remote \<Rightarrow> jsval \<Rightarrow> jsval \<Rightarrow> jsval \<Rightarrow> jsval io" where
  "createNodeIpAddress remote node role ipAddress =
     and_then (attempt (getRestRecordLink node)) (\<lambda>nodeLink.
     and_then (attempt (getRestRecordLink role)) (\<lambda>roleLink.
       seisoRequest remote ''nodeIpAddresses''
         (Obj [(''node'', nodeLink), (''ipAddressRole'', roleLink), (''ipAddress'', ipAddress)])
         (Some \<lparr>o_method = Some ''POST'', o_ignoredErrorCodes = [ERROR_CONFLICT],
                o_query = []\<rparr>) []))"

text \<open>Lines 698-711: the first role named \<^verbatim>\<open>default\<close>.\<close>

fun find_default_role :: "jsval list \<Rightarrow> jsval io" where
  "find_default_role [] = reject (Rejected ''Unable to find default IP address role'')"
| "find_default_role (r # rs) =
     and_then (attempt (get_prop r ''name'')) (\<lambda>n.
       if n = Str ''default'' then resolve r else find_default_role rs)"

definition getDefaultIpAddressRole :: "remote \<Rightarrow> jsval \<Rightarrow> jsval io" where
  "getDefaultIpAddressRole remote serviceInstanceId =
     and_then
       (seisoRequest remote
          (join_path [Str ''serviceInstances'', serviceInstanceId, Str ''ipAddressRoles''])
          Null None ''ipAddressRoles'')
       (\<lambda>roles.
          case roles of
            Arr rs \<Rightarrow> find_default_role rs
          | _ \<Rightarrow>
              if truthy roles \<and> get_prop roles ''name'' = Inr (Str ''default'') then resolve roles
              else reject (Rejected ''Unable to find default IP address role''))"

text \<open>
  \<^verbatim>\<open>ipAddresses.indexOf(a) < 0\<close> (line 626), for whatever \<^verbatim>\<open>ipAddresses\<close> is: an
  array looks for an element that is strictly equal, a string for an occurrence of
  \<^verbatim>\<open>a\<close> converted to a string, and no other value has an \<^verbatim>\<open>indexOf\<close> to call.
\<close>

definition index_missing :: "jsval \<Rightarrow> jsval \<Rightarrow> error + bool" where
  "index_missing ipAddresses a =
     (case ipAddresses of
        Arr xs \<Rightarrow> Inr (not_indexOf xs a)
      | Str s \<Rightarrow> Inr (\<not> contains (to_string a) s)
      | _ \<Rightarrow> Inl TypeError)"

text \<open>
  The elements that \<^verbatim>\<open>for (i = 0; i < ipAddresses.length; i++)\<close> visits as
  \<^verbatim>\<open>ipAddresses[i]\<close> (lines 633-637): those of an array, the characters of a string,
  the properties \<^verbatim>\<open>0\<close>, \<^verbatim>\<open>1\<close>, ... of an object up to its \<^verbatim>\<open>length\<close>; a number
  or boolean has no \<^verbatim>\<open>length\<close>, and \<^verbatim>\<open>undefined\<close> and \<^verbatim>\<open>null\<close> throw.
\<close>

definition array_like_items :: "jsval \<Rightarrow> error + jsval list" where
  "array_like_items ipAddresses =
     (case ipAddresses of
        Arr xs \<Rightarrow> Inr xs
      | Str s \<Rightarrow> Inr (map (\<lambda>c. Str [c]) s)
      | Obj ps \<Rightarrow>
          (case to_number (case map_of ps ''length'' of None \<Rightarrow> Undefined | Some v \<Rightarrow> v) of
             Some n \<Rightarrow>
               Inr (map (\<lambda>i. case map_of ps (show_nat i) of None \<Rightarrow> Undefined | Some v \<Rightarrow> v)
                      [0 ..< nat n])
           | None \<Rightarrow> Inr [])
      | Undefined \<Rightarrow> Inl TypeError
      | Null \<Rightarrow> Inl TypeError
      | _ \<Rightarrow> Inr [])"

text \<open>
  The first loop of \<^verbatim>\<open>syncNodeIpAddressesAsync\<close> (lines 625-631). A delete is
  started as soon as its address is found missing from the desired ones; the loop goes
  on whatever becomes of that request, and stops only when a statement of the loop
  itself throws. It gives the outcomes of the deletes and
  \<^verbatim>\<open>confirmedIpAddresses\<close>.
\<close>

fun delete_loop ::
  "remote \<Rightarrow> jsval \<Rightarrow> jsval \<Rightarrow> jsval list \<Rightarrow> ((error + jsval) list \<times> jsval list) io" where
  "delete_loop remote node ipAddresses [] = resolve ([], [])"
| "delete_loop remote node ipAddresses (x # xs) =
     and_then (attempt (get_prop x ''ipAddress'')) (\<lambda>a.
     and_then (attempt (index_missing ipAddresses a)) (\<lambda>missing.
       if missing
       then and_then (attempt (getRestRecordId x)) (\<lambda>rid.
              (\<lambda>log. case deleteNodeIpAddress remote node x log of
                        (r, log') \<Rightarrow>
                          (case delete_loop remote node ipAddresses xs log' of
                             (Inl e, log'') \<Rightarrow> (Inl e, log'')
                           | (Inr (work, confirmed), log'') \<Rightarrow> (Inr (r # work, confirmed), log''))))
       else and_then (delete_loop remote node ipAddresses xs) (\<lambda>(work, confirmed).
              resolve (work, a # confirmed))))"

text \<open>
  \<^verbatim>\<open>syncNodeIpAddressesAsync\<close> (lines 612-658). The third loop (lines 642-647)
  pushes one callback for every address to add, and every callback reads
  \<^verbatim>\<open>ipAddressToAdd\<close> when it runs. That is a \<^verbatim>\<open>var\<close>, one binding for the whole
  function, and the callbacks run once the role has arrived, after the loop has ended:
  by then it holds the last address to add.
\<close>

definition syncNodeIpAddressesAsync :: "remote \<Rightarrow> jsval \<Rightarrow> jsval \<Rightarrow> jsval \<Rightarrow> jsval io" where
  "syncNodeIpAddressesAsync remote serviceInstanceId node ipAddresses =
     and_then (attempt (getRestRecordId node)) (\<lambda>rid.
     and_then (seisoRequest remote (join_path [Str ''nodes'', rid, Str ''ipAddresses''])
                 Null None ''nodeIpAddresses'') (\<lambda>existingIpAddresses.
     and_then (delete_loop remote node ipAddresses
                 (case existingIpAddresses of Arr xs \<Rightarrow> xs | _ \<Rightarrow> []))
       (\<lambda>(deleted, confirmedIpAddresses).
     and_then (attempt (array_like_items ipAddresses)) (\<lambda>desired.
       let ipAddressesToAdd = filter (not_indexOf confirmedIpAddresses) desired
       in and_then
            (if ipAddressesToAdd = [] then resolve []
             else (\<lambda>log.
                     case getDefaultIpAddressRole remote serviceInstanceId log of
                       (Inl e, log') \<Rightarrow> (Inr (map (\<lambda>_. Inl e) ipAddressesToAdd), log')
                     | (Inr role, log') \<Rightarrow>
                         (let ipAddressToAdd = last ipAddressesToAdd
                          in settle_each
                               (map (\<lambda>_. createNodeIpAddress remote node role ipAddressToAdd)
                                  ipAddressesToAdd) log')))
            (\<lambda>created.
               let work = deleted @ created
               in if work \<noteq> [] then and_then (attempt (promise_all work)) (\<lambda>_. resolve node)
                  else resolve node)))))"

text \<open>
  \<^verbatim>\<open>createNodeAsync\<close> (lines 480-527). Its parameter is \<^verbatim>\<open>nodeRequest\<close>; the
  conflict handler builds the argument of \<^verbatim>\<open>findNodesAsync\<close> from
  \<^verbatim>\<open>nodeRequest.name\<close> and \<^verbatim>\<open>params.tags['AWS Instance ID']\<close> (line 501) before
  it can call it.
\<close>

definition createNodeAsync :: "remote \<Rightarrow> jsval \<Rightarrow> jsval io" where
  "createNodeAsync remote nodeRequest =
     and_then (attempt (get_prop nodeRequest ''name'')) (\<lambda>name.
     and_then (attempt (get_prop nodeRequest ''serviceInstanceLink'')) (\<lambda>serviceInstanceLink.
     and_then (attempt (get_prop nodeRequest ''machine'')) (\<lambda>machine.
     and_then
       (or_catch
          (seisoRequest remote ''nodes/''
             (Obj [(''name'', name), (''serviceInstance'', serviceInstanceLink), (''machine'', machine)])
             (Some \<lparr>o_method = Some ''POST'', o_ignoredErrorCodes = [], o_query = []\<rparr>) [])
          (\<lambda>err.
             if statusCode err = Some ERROR_CONFLICT
             then (let scope = [(''err'', Obj []), (''self'', Obj []), (''nodeRequest'', nodeRequest)]
                                 @ module_scope
                   in and_then (attempt (read_identifier scope ''params'')) (\<lambda>params.
                      and_then (attempt (get_prop params ''tags'')) (\<lambda>tags.
                      and_then (attempt (get_prop tags ''AWS Instance ID'')) (\<lambda>instanceId.
                      and_then
                        (findNodesAsync remote
                           (Obj [(''name'', name),
                                 (''filters'', Arr [Obj [(''type'', Str ''Tag''),
                                                        (''name'', Str ''AWS Instance ID''),
                                                        (''value'', instanceId)]])]))
                        (conflict_matches
                           ''Node creation failed with conflict but node does not exist''
                           ''Node creation failed with conflict and node retrieval found multiple matching nodes'')))))
             else reject err))
       (\<lambda>node.
          and_then (attempt (get_prop nodeRequest ''serviceInstanceId'')) (\<lambda>serviceInstanceId.
          and_then (attempt (get_prop nodeRequest ''ipAddresses'')) (\<lambda>ipAddresses.
            syncNodeIpAddressesAsync remote serviceInstanceId node ipAddresses))))))"

text \<open>
  \<^verbatim>\<open>updateNodeAsync\<close> (lines 530-578). Its parameters are \<^verbatim>\<open>existingNode\<close> and
  \<^verbatim>\<open>params\<close>; the conflict handler reads \<^verbatim>\<open>nodeRequest.name\<close> (line 547) first.
\<close>

definition updateNodeAsync :: "remote \<Rightarrow> jsval \<Rightarrow> jsval \<Rightarrow> jsval io" where
  "updateNodeAsync remote existingNode params =
     and_then (attempt (getRestRecordId existingNode)) (\<lambda>rid.
     and_then (attempt (get_prop params ''name'')) (\<lambda>name.
     and_then (attempt (get_prop params ''serviceInstanceLink'')) (\<lambda>serviceInstanceLink.
     and_then (attempt (get_prop params ''machine'')) (\<lambda>machine.
     and_then
       (or_catch
          (seisoRequest remote (''nodes/'' @ to_string rid)
             (Obj [(''name'', name), (''serviceInstance'', serviceInstanceLink), (''machine'', machine)])
             (Some \<lparr>o_method = Some ''PUT'', o_ignoredErrorCodes = [], o_query = []\<rparr>) [])
          (\<lambda>err.
             if statusCode err = Some ERROR_CONFLICT
             then (let scope = [(''err'', Obj []), (''self'', Obj []),
                                (''existingNode'', existingNode), (''params'', params)] @ module_scope
                   in and_then (attempt (read_identifier scope ''nodeRequest'')) (\<lambda>nodeRequest.
                      and_then (attempt (get_prop nodeRequest ''name'')) (\<lambda>requestName.
                      and_then (attempt (get_prop params ''tags'')) (\<lambda>tags.
                      and_then (attempt (get_prop tags ''AWS Instance ID'')) (\<lambda>instanceId.
                      and_then
                        (findNodesAsync remote
                           (Obj [(''name'', requestName),
                                 (''filters'', Arr [Obj [(''type'', Str ''Tag''),
                                                        (''name'', Str ''AWS Instance ID''),
                                                        (''value'', instanceId)]])]))
                        (conflict_matches
                           ''Node update failed with conflict but node does not exist''
                           ''Node update failed with conflict and node retrieval found multiple matching nodes''))))))
             else reject err))
       (\<lambda>node.
          and_then (attempt (get_prop params ''serviceInstanceId'')) (\<lambda>serviceInstanceId.
          and_then (attempt (get_prop params ''ipAddresses'')) (\<lambda>ipAddresses.
            syncNodeIpAddressesAsync remote serviceInstanceId node ipAddresses)))))))"

text \<open>\<^verbatim>\<open>createMachineAsync\<close> (lines 781-813) and \<^verbatim>\<open>updateMachineAsync\<close> (815-847).\<close>

definition createMachineAsync :: "remote \<Rightarrow> jsval \<Rightarrow> jsval io" where
  "createMachineAsync remote params =
     or_catch
       (seisoRequest remote ''machines/'' params
          (Some \<lparr>o_method = Some ''POST'', o_ignoredErrorCodes = [], o_query = []\<rparr>) [])
       (\<lambda>err.
          if statusCode err = Some ERROR_CONFLICT
          then and_then (attempt (get_prop params ''name'')) (\<lambda>name.
               and_then (getMachinesByNameAsync remote name)
                 (conflict_matches
                    ''Machine creation failed with conflict but machine does not exist''
                    ''Machine creation failed with conflict and machine retrieval found multiple matching machines''))
          else reject err)"

definition updateMachineAsync :: "remote \<Rightarrow> jsval \<Rightarrow> jsval \<Rightarrow> jsval io" where
  "updateMachineAsync remote rid params =
     or_catch
       (seisoRequest remote (''machines/'' @ to_string rid) params
          (Some \<lparr>o_method = Some ''PUT'', o_ignoredErrorCodes = [], o_query = []\<rparr>) [])
       (\<lambda>err.
          if statusCode err = Some ERROR_CONFLICT
          then and_then (attempt (get_prop params ''name'')) (\<lambda>name.
               and_then (getMachinesByNameAsync remote name)
                 (conflict_matches
                    ''Machine update failed with conflict but machine does not exist''
                    ''Machine update failed with conflict and machine retrieval found multiple matching machines''))
          else reject err)"

definition upsertMachineAsync :: "remote \<Rightarrow> jsval \<Rightarrow> jsval io" where
  "upsertMachineAsync remote params =
     and_then (attempt (get_prop params ''name'')) (\<lambda>name.
     and_then
       (seisoRequest remote ''machines/search/findByName'' Null
          (Some \<lparr>o_method = None, o_ignoredErrorCodes = [ERROR_NOT_FOUND],
                 o_query = [(''name'', name)]\<rparr>) [])
       (\<lambda>machine.
          if truthy machine
          then and_then (attempt (getRestRecordId machine)) (\<lambda>rid. updateMachineAsync remote rid params)
          else createMachineAsync remote params))"

text \<open>
  \<^verbatim>\<open>createServiceInstanceAsync\<close> (lines 413-478): the record, then one port
  record for every port and the default role, all started together.
\<close>

definition createServiceInstanceAsync :: "remote \<Rightarrow> jsval \<Rightarrow> jsval io" where
  "createServiceInstanceAsync remote serviceInstanceRequest =
     and_then (attempt (get_prop serviceInstanceRequest ''key'')) (\<lambda>key.
     and_then (attempt (get_prop serviceInstanceRequest ''service'')) (\<lambda>service.
     and_then (attempt (get_prop serviceInstanceRequest ''environment'')) (\<lambda>environment.
     and_then (attempt (get_prop serviceInstanceRequest ''dataCenter'')) (\<lambda>dataCenter.
     and_then (attempt (get_prop serviceInstanceRequest ''loadBalanced'')) (\<lambda>loadBalanced.
     and_then (attempt (get_prop serviceInstanceRequest ''loadBalancer'')) (\<lambda>loadBalancer.
     and_then
       (or_catch
          (seisoRequest remote ''serviceInstances/''
             (Obj [(''key'', key), (''service'', service), (''environment'', environment),
                   (''dataCenter'', dataCenter), (''loadBalanced'', loadBalanced),
                   (''loadBalancer'', loadBalancer)])
             (Some \<lparr>o_method = Some ''POST'', o_ignoredErrorCodes = [], o_query = []\<rparr>) [])
          (\<lambda>err.
             if statusCode err = Some ERROR_CONFLICT
             then and_then (getServiceInstanceAsync remote service environment) (\<lambda>serviceInstance.
                    if \<not> truthy serviceInstance
                    then reject (Rejected
                      ''Creation of service instance failed with conflict but service instance not found'')
                    else resolve serviceInstance)
             else reject err))
       (\<lambda>serviceInstance.
          and_then (attempt (getRestRecordLink serviceInstance)) (\<lambda>serviceInstanceLink.
          and_then (attempt (get_prop serviceInstanceRequest ''ports'')) (\<lambda>ports.
          and_then (attempt (case ports of
                               Arr ps \<Rightarrow> Inr ps
                             | Str cs \<Rightarrow> Inr (map (\<lambda>c. Str [c]) cs)
                             | Undefined \<Rightarrow> Inl TypeError
                             | Null \<Rightarrow> Inl TypeError
                             | _ \<Rightarrow> Inr [])) (\<lambda>ps.
          and_then
            (settle_each
               (map (\<lambda>port.
                       seisoRequest remote ''serviceInstancePorts/''
                         (Obj [(''serviceInstance'', serviceInstanceLink), (''number'', port),
                               (''protocol'', getProtocolFromPort port)])
                         (Some \<lparr>o_method = Some ''POST'', o_ignoredErrorCodes = [ERROR_CONFLICT],
                                o_query = []\<rparr>) []) ps
                @ [seisoRequest remote ''ipAddressRoles/''
                     (Obj [(''name'', Str ''default''), (''description'', Str ''Default role''),
                           (''serviceInstance'', serviceInstanceLink)])
                     (Some \<lparr>o_method = Some ''POST'', o_ignoredErrorCodes = [ERROR_CONFLICT],
                            o_query = []\<rparr>) []]))
            (\<lambda>additionalWork.
               and_then (attempt (promise_all additionalWork)) (\<lambda>_. resolve serviceInstance))))))))))))"

text \<open>\<^verbatim>\<open>self.preCache.then(f)\<close>.\<close>

definition after_preCache :: "seiso_client \<Rightarrow> 'a io \<Rightarrow> 'a io" where
  "after_preCache client p = (case c_preCache client of Inl e \<Rightarrow> reject e | Inr _ \<Rightarrow> p)"

text \<open>
  \<^verbatim>\<open>table[key] ? getRestRecordLink(table[key]) : null\<close> (lines 161, 162, 188). The
  table is a plain object: besides the records it was filled with, a read finds what
  every object inherits, a function or object that has no \<^verbatim>\<open>_links\<close>.
\<close>

definition object_prototype_names :: "string list" where
  "object_prototype_names =
     [''constructor'', ''toString'', ''toLocaleString'', ''valueOf'', ''hasOwnProperty'',
      ''isPrototypeOf'', ''propertyIsEnumerable'', ''__proto__'', ''__defineGetter__'',
      ''__defineSetter__'', ''__lookupGetter__'', ''__lookupSetter__'']"

definition link_or_null :: "(string \<times> jsval) list \<Rightarrow> jsval \<Rightarrow> error + jsval" where
  "link_or_null table key =
     (case map_of table (to_string key) of
        Some v \<Rightarrow> if truthy v then getRestRecordLink v else Inr Null
      | None \<Rightarrow> if to_string key \<in> set object_prototype_names then Inl TypeError else Inr Null)"

text \<open>
  The validation of \<^verbatim>\<open>upsertNodeAsync\<close> (lines 90-97): the list of messages, or
  the error of reading a property of a \<^verbatim>\<open>params\<close> that is \<^verbatim>\<open>null\<close> or
  \<^verbatim>\<open>undefined\<close>.
\<close>

definition upsert_validationErrors :: "jsval \<Rightarrow> error + string list" where
  "upsert_validationErrors params =
     (case get_prop params ''tags'' of Inl e \<Rightarrow> Inl e | Inr tags \<Rightarrow>
        let tag_missing =
              (\<not> truthy tags \<or>
               (case get_prop tags ''AWS Instance ID'' of Inr v \<Rightarrow> \<not> truthy v | Inl e \<Rightarrow> True))
        in (case get_prop params ''ports'' of Inl e \<Rightarrow> Inl e | Inr ports \<Rightarrow>
              let ports_missing = (case ports of Arr ps \<Rightarrow> length ps = 0 | _ \<Rightarrow> True)
              in Inr ((if tag_missing then [''Required tag 'AWS Instance ID' not present''] else [])
                      @ (if ports_missing
                         then [''At least one port must be specified (or ports are not in correct format)'']
                         else []))))"

text \<open>
  The rest of \<^verbatim>\<open>upsertNodeAsync\<close> (lines 108-222), entered only when no
  validation message was found: node lookup, service, service instance, machine,
  then the node is created or updated.
\<close>

definition upsert_reconcile :: "remote \<Rightarrow> seiso_client \<Rightarrow> jsval \<Rightarrow> jsval io" where
  "upsert_reconcile remote client params =
     and_then (attempt (get_prop params ''name'')) (\<lambda>name.
     and_then (attempt (prop_path params [''tags'', ''AWS Instance ID''])) (\<lambda>instanceId.
     and_then
       (findNodesAsync remote
          (Obj [(''name'', name),
                (''filters'', Arr [Obj [(''type'', Str ''Tag''), (''name'', Str ''AWS Instance ID''),
                                       (''value'', instanceId)]])]))
       (\<lambda>matchingNodes.
          if truthy matchingNodes \<and> (case matchingNodes of Arr ns \<Rightarrow> 1 < length ns | _ \<Rightarrow> False)
          then reject (Rejected ''Multiple nodes already exist with that AWS instance ID'')
          else
            let node = (if truthy matchingNodes then matchingNodes else Undefined)
            in
     and_then (attempt (get_prop params ''service'')) (\<lambda>serviceKey.
     and_then (getServiceAsync remote serviceKey) (\<lambda>existingService.
     and_then
       (if existingService = Null \<or> existingService = Undefined
        then createServiceAsync remote (Obj [(''key'', serviceKey), (''name'', serviceKey)])
        else resolve existingService)
       (\<lambda>service.
     and_then (attempt (getRestRecordLink service)) (\<lambda>serviceLink.
     and_then (attempt (get_prop params ''environmentType'')) (\<lambda>environmentType.
     and_then (getServiceInstanceAsync remote serviceKey environmentType) (\<lambda>found.
     and_then
       (if found = Null \<or> found = Undefined
        then after_preCache client
               (and_then (attempt (get_prop params ''environment'')) (\<lambda>environment.
                and_then (attempt (link_or_null (c_environments client) environment)) (\<lambda>environmentLink.
                and_then (attempt (get_prop params ''dataCenter'')) (\<lambda>dataCenter.
                and_then (attempt (link_or_null (c_dataCenters client) dataCenter)) (\<lambda>dataCenterLink.
                and_then (attempt (get_prop params ''ports'')) (\<lambda>ports.
                and_then (attempt (get_prop params ''loadBalanced'')) (\<lambda>loadBalanced.
                and_then (attempt (get_prop params ''loadBalancer'')) (\<lambda>loadBalancer.
                  createServiceInstanceAsync remote
                    (Obj [(''key'', Str (to_string serviceKey @ ''-'' @ to_string environmentType)),
                          (''service'', serviceLink), (''environment'', environmentLink),
                          (''dataCenter'', dataCenterLink), (''ports'', ports),
                          (''loadBalanced'', loadBalanced), (''loadBalancer'', loadBalancer)])))))))))
        else resolve found)
       (\<lambda>serviceInstance.
     and_then (attempt (getRestRecordId serviceInstance)) (\<lambda>serviceInstanceId.
     and_then (attempt (getRestRecordLink serviceInstance)) (\<lambda>serviceInstanceLink.
     and_then
       (after_preCache client
          (and_then (attempt (get_prop params ''machineName'')) (\<lambda>machineName.
           and_then (attempt (get_prop params ''hostname'')) (\<lambda>hostname.
           and_then (attempt (get_prop params ''domain'')) (\<lambda>domain.
           and_then (attempt (get_prop params ''os'')) (\<lambda>os.
           and_then (attempt (get_prop params ''platform'')) (\<lambda>platform.
           and_then (attempt (get_prop params ''ipAddress'')) (\<lambda>ipAddress.
           and_then (attempt (get_prop params ''dataCenter'')) (\<lambda>dataCenter.
           and_then (attempt (link_or_null (c_dataCenters client) dataCenter)) (\<lambda>dataCenterLink.
             upsertMachineAsync remote
               (Obj [(''name'', machineName), (''hostname'', hostname), (''domain'', domain),
                     (''os'', os), (''platform'', platform), (''ipAddress'', ipAddress),
                     (''dataCenter'', dataCenterLink)])))))))))))
       (\<lambda>machine.
     and_then (attempt (getRestRecordLink machine)) (\<lambda>machineLink.
     and_then (attempt (get_prop params ''ipAddress'')) (\<lambda>ipAddress.
     and_then (attempt (get_prop params ''tags'')) (\<lambda>tags.
       if \<not> truthy node
       then createNodeAsync remote
              (Obj [(''name'', name), (''version'', Str ''1.0.0''),
                    (''serviceInstanceId'', serviceInstanceId),
                    (''serviceInstanceLink'', serviceInstanceLink), (''machine'', machineLink),
                    (''ipAddresses'', Arr [ipAddress]), (''tage'', tags)])
       else updateNodeAsync remote node
              (Obj [(''name'', name), (''version'', Str ''1.0.0''),
                    (''serviceInstanceId'', serviceInstanceId),
                    (''serviceInstanceLink'', serviceInstanceLink), (''machine'', machineLink),
                    (''ipAddresses'', Arr [ipAddress]), (''tags'', tags)])))))))))))))))))"

text \<open>\<^verbatim>\<open>upsertNodeAsync\<close> (lines 86-223).\<close>

definition upsertNodeAsync :: "remote \<Rightarrow> seiso_client \<Rightarrow> jsval \<Rightarrow> jsval io" where
  "upsertNodeAsync remote client params =
     and_then (attempt (upsert_validationErrors params)) (\<lambda>validationErrors.
       if 0 < length validationErrors
       then reject (ValidationRejected ''One or more validation errors was found'' validationErrors)
       else upsert_reconcile remote client params)"

text \<open>\<^verbatim>\<open>patchNodeAggregateRotationStatus\<close> (lines 600-610).\<close>

definition patchNodeAggregateRotationStatus :: "remote \<Rightarrow> jsval \<Rightarrow> jsval \<Rightarrow> jsval io" where
  "patchNodeAggregateRotationStatus remote node status =
     and_then (attempt (getRestRecordId node)) (\<lambda>rid.
       seisoRequest remote (''nodes/'' @ to_string rid)
         (Obj [(''aggregateRotationStatus'', status)])
         (Some \<lparr>o_method = Some ''PATCH'', o_ignoredErrorCodes = [], o_query = []\<rparr>) [])"

section \<open>orchestrator.js: the lifecycle\<close>

datatype lifecycle = Stopped | Starting | Started | Stopping | Unknown

text \<open>What a completion callback is called with: \<^verbatim>\<open>null\<close> or a failure.\<close>

datatype cb_arg = CbNull | CbError error

text \<open>
  A callback is known by a number. Each call of \<^verbatim>\<open>start(callback)\<close> that gets
  past the \<^verbatim>\<open>Started\<close> check makes one closure, with its own flag
  \<^verbatim>\<open>notified\<close>, known by a number too. What \<^verbatim>\<open>process.nextTick\<close> queues is a
  \<open>task\<close>.
\<close>

datatype task =
    Call_callback nat cb_arg
  | Once_started nat nat
  | Once_stopped nat nat

text \<open>
  The closure state of \<^verbatim>\<open>createOrchestrator\<close> together with what the event loop
  holds for it: \<open>started_listeners\<close> and \<open>stopped_listeners\<close> are the
  \<^verbatim>\<open>once\<close> listeners registered on the orchestrator (closure, callback), in
  registration order; \<open>notified\<close> lists the closures whose flag is set;
  \<open>invoked\<close> records every call of a completion callback; \<open>bootstrapped\<close>
  counts how often lines 72-147 (instantiate, bind and start all components) ran.
\<close>

record orchestrator =
  o_state :: lifecycle
  started_listeners :: "(nat \<times> nat) list"
  stopped_listeners :: "(nat \<times> nat) list"
  notified :: "nat list"
  next_closure :: nat
  next_tick :: "task list"
  invoked :: "(nat \<times> cb_arg) list"
  bootstrapped :: nat

definition createOrchestrator :: orchestrator where
  "createOrchestrator =
     \<lparr>o_state = Stopped, started_listeners = [], stopped_listeners = [], notified = [],
      next_closure = 0, next_tick = [], invoked = [], bootstrapped = 0\<rparr>"

text \<open>
  \<^verbatim>\<open>start\<close> (lines 38-150) up to its \<^verbatim>\<open>return\<close>. The argument is \<open>Some c\<close>
  when \<^verbatim>\<open>typeof callback === 'function'\<close>. The configuration is taken to be
  complete, so that nothing between lines 72 and 135 throws.
\<close>

definition start :: "nat option \<Rightarrow> orchestrator \<Rightarrow> bool \<times> orchestrator" where
  "start callback s =
     (if o_state s = Started
      then (case callback of
              Some c \<Rightarrow> (False, s\<lparr>next_tick := next_tick s @ [Call_callback c CbNull]\<rparr>)
            | None \<Rightarrow> (False, s))
      else
        let s1 = (case callback of
                    Some c \<Rightarrow>
                      s\<lparr>next_closure := Suc (next_closure s),
                        next_tick := next_tick s @
                          [Once_started (next_closure s) c, Once_stopped (next_closure s) c]\<rparr>
                  | None \<Rightarrow> s)
        in if o_state s1 = Starting then (False, s1)
           else (True, s1\<lparr>o_state := Starting, bootstrapped := Suc (bootstrapped s1)\<rparr>))"

text \<open>One queued task, and the whole queue in order.\<close>

fun run_task :: "orchestrator \<Rightarrow> task \<Rightarrow> orchestrator" where
  "run_task s (Call_callback c a) = s\<lparr>invoked := invoked s @ [(c, a)]\<rparr>"
| "run_task s (Once_started k c) = s\<lparr>started_listeners := started_listeners s @ [(k, c)]\<rparr>"
| "run_task s (Once_stopped k c) = s\<lparr>stopped_listeners := stopped_listeners s @ [(k, c)]\<rparr>"

definition run_ticks :: "orchestrator \<Rightarrow> orchestrator" where
  "run_ticks s = foldl run_task (s\<lparr>next_tick := []\<rparr>) (next_tick s)"

text \<open>
  \<^verbatim>\<open>self.emit('started', null)\<close>: every listener is removed and run once (lines
  53-56: set the flag, call the callback with \<^verbatim>\<open>null\<close>).
\<close>

fun fire_started :: "(nat \<times> nat) list \<Rightarrow> orchestrator \<Rightarrow> orchestrator" where
  "fire_started [] s = s"
| "fire_started ((k, c) # ls) s =
     fire_started ls (s\<lparr>notified := k # notified s, invoked := invoked s @ [(c, CbNull)]\<rparr>)"

definition emit_started :: "orchestrator \<Rightarrow> orchestrator" where
  "emit_started s = fire_started (started_listeners s) (s\<lparr>started_listeners := []\<rparr>)"

text \<open>
  \<^verbatim>\<open>self.emit('stopped', {Error: err})\<close>: every listener is removed and run once
  (lines 60-64: unless the flag is set, call the callback with the error; a rejection
  reason is truthy, so \<^verbatim>\<open>event.Error || ...\<close> is the error).
\<close>

fun fire_stopped :: "error \<Rightarrow> (nat \<times> nat) list \<Rightarrow> orchestrator \<Rightarrow> orchestrator" where
  "fire_stopped err [] s = s"
| "fire_stopped err ((k, c) # ls) s =
     fire_stopped err ls
       (if k \<in> set (notified s) then s else s\<lparr>invoked := invoked s @ [(c, CbError err)]\<rparr>)"

definition emit_stopped :: "error \<Rightarrow> orchestrator \<Rightarrow> orchestrator" where
  "emit_stopped err s = fire_stopped err (stopped_listeners s) (s\<lparr>stopped_listeners := []\<rparr>)"

text \<open>The two handlers of lines 138-147.\<close>

definition start_catch_handler :: "error \<Rightarrow> orchestrator \<Rightarrow> orchestrator" where
  "start_catch_handler err s = emit_stopped err (s\<lparr>o_state := Stopped\<rparr>)"

definition start_then_handler :: "orchestrator \<Rightarrow> orchestrator" where
  "start_then_handler s = emit_started (s\<lparr>o_state := Started\<rparr>)"

text \<open>
  Lines 137-147, \<^verbatim>\<open>Promise.all([...]).catch(h1).then(h2)\<close>, once the components have
  settled with \<open>outcomes\<close> (listener, feeder, inventory client, then the custom
  mappers). \<^verbatim>\<open>catch(h1)\<close> gives a promise that fulfils with what \<^verbatim>\<open>h1\<close> returns
  when \<^verbatim>\<open>Promise.all\<close> rejects, and passes a fulfilment through; \<^verbatim>\<open>then(h2)\<close>
  runs \<^verbatim>\<open>h2\<close> when that promise fulfils. The handlers run in a later turn of the
  event loop than \<^verbatim>\<open>start\<close>, after the tasks that \<^verbatim>\<open>start\<close> queued.
\<close>

definition settle_start :: "(error + unit) list \<Rightarrow> orchestrator \<Rightarrow> orchestrator" where
  "settle_start outcomes s =
     (case promise_all outcomes of
        Inl err \<Rightarrow> start_then_handler (start_catch_handler err s)
      | Inr _ \<Rightarrow> start_then_handler s)"

definition getState :: "orchestrator \<Rightarrow> lifecycle" where
  "getState s = o_state s"

section \<open>orchestrator.js: the custom mapper chain\<close>

text \<open>
  A custom mapper has a name and a \<^verbatim>\<open>map(node, callback)\<close>. \<open>m_map m node\<close> is
  the pair \<open>(err, node')\<close> it calls the callback with, or \<open>None\<close> when it never
  calls it.
\<close>

record custom_mapper =
  m_name :: string
  m_map :: "jsval \<Rightarrow> (jsval \<times> jsval) option"

text \<open>
  \<^verbatim>\<open>map(mappers, index, node, callback)\<close> (lines 276-294). The first component is
  what \<^verbatim>\<open>callback\<close> is called with (\<open>None\<close>: it is never called); the second
  lists the stages that were called, each with the node it was given.
\<close>

function map_mappers ::
  "custom_mapper list \<Rightarrow> nat \<Rightarrow> jsval \<Rightarrow> (jsval \<times> jsval) option \<times> (string \<times> jsval) list" where
  "map_mappers mappers index node =
     (if length mappers \<le> index then (Some (Null, node), [])
      else (case m_map (mappers ! index) node of
              None \<Rightarrow> (None, [(m_name (mappers ! index), node)])
            | Some (err, node') \<Rightarrow>
                if truthy err
                then (Some (Obj [(''mapper'', Str (m_name (mappers ! index))), (''error'', err)],
                            Undefined),
                      [(m_name (mappers ! index), node)])
                else (case map_mappers mappers (index + 1) node' of
                        (r, called) \<Rightarrow> (r, (m_name (mappers ! index), node) # called))))"
  by pat_completeness auto
termination
  by (relation "measure (\<lambda>(mappers, index, node). length mappers - index)") auto

section \<open>orchestrator.js: rotation events\<close>

text \<open>What becomes of a promise: it may never settle.\<close>

datatype outcome = Pending | Fulfilled | RejectedWith error

text \<open>
  Lines 313-317. Both comparisons convert \<^verbatim>\<open>nodeResponse.length\<close> to a number, and
  both are false for \<^verbatim>\<open>NaN\<close>, which is what a record without a \<^verbatim>\<open>length\<close> gives.
\<close>

definition check_single :: "jsval \<Rightarrow> error + jsval" where
  "check_single nodeResponse =
     (case get_prop nodeResponse ''length'' of
        Inl e \<Rightarrow> Inl e
      | Inr len \<Rightarrow>
          (case to_number len of
             Some n \<Rightarrow>
               if n < 1 then Inl (Thrown ''No matching Node Records found for instance'')
               else if 1 < n then Inl (Thrown ''Multiple matching Node Records found for instance'')
               else Inr nodeResponse
           | None \<Rightarrow> Inr nodeResponse))"

text \<open>
  Lines 303-321, the promise that \<^verbatim>\<open>resolve\<close> is given: look the node up, require
  one match, patch it. The last handler (lines 318-320) calls
  \<^verbatim>\<open>patchNodeAggregateRotationStatus\<close> and returns nothing: the promise of the patch
  is dropped, so the chain fulfils as soon as the request has been made, unless making
  it throws.
\<close>

definition lookup_and_patch :: "remote \<Rightarrow> jsval \<Rightarrow> jsval \<Rightarrow> jsval io" where
  "lookup_and_patch remote node status =
     and_then (attempt (get_prop node ''name'')) (\<lambda>name.
     and_then (attempt (prop_path node [''tags'', ''AWS Instance ID''])) (\<lambda>instanceId.
     and_then
       (findNodesAsync remote
          (Obj [(''name'', name),
                (''filters'', Arr [Obj [(''type'', Str ''Tag''), (''name'', Str ''AWS Instance ID''),
                                       (''value'', instanceId)]])]))
       (\<lambda>found.
     and_then (attempt (check_single found)) (\<lambda>nodeResponse.
     and_then (attempt (getRestRecordId nodeResponse)) (\<lambda>rid.
       (\<lambda>log. (Inr Undefined,
                 snd (patchNodeAggregateRotationStatus remote nodeResponse status log))))))))"

text \<open>
  \<^verbatim>\<open>rotateInstance\<close> (lines 264-325). \<open>Inl\<close>: the call itself throws (line 266
  does when the instance is not an object, the file being in strict mode). Otherwise
  the outcome of the promise it returns: when the mapper chain reports a failure the
  callback only logs it (lines 298-299), and the promise is never settled. The custom
  mappers are taken to call back before they return, so that what the callback throws
  rejects the promise.
\<close>

definition rotateInstance ::
  "remote \<Rightarrow> custom_mapper list \<Rightarrow> jsval \<Rightarrow> jsval \<Rightarrow> request list
     \<Rightarrow> (error + outcome) \<times> request list" where
  "rotateInstance remote customMappers instance0 status log =
     (if \<not> is_object instance0 then (Inl TypeError, log)
      else
        let instance = set_prop instance0 ''state'' status
        in case validateMessage instance of
             Inl e \<Rightarrow> (Inl e, log)
           | Inr validationErrors \<Rightarrow>
               if 0 < length validationErrors
               then (Inr (RejectedWith (InvalidDetails validationErrors)), log)
               else (case instanceToNode instance of
                       Inl e \<Rightarrow> (Inl e, log)
                     | Inr node \<Rightarrow>
                         (case fst (map_mappers customMappers 0 node) of
                            None \<Rightarrow> (Inr Pending, log)
                          | Some (err, mapped) \<Rightarrow>
                              if truthy err then (Inr Pending, log)
                              else (case lookup_and_patch remote mapped status log of
                                      (Inl e, log') \<Rightarrow> (Inr (RejectedWith e), log')
                                    | (Inr _, log') \<Rightarrow> (Inr Fulfilled, log')))))"

text \<open>
  \<^verbatim>\<open>rotationStatuses.find(rs => rs.key === key)\<close> (line 247), and with \<^verbatim>\<open>==\<close>
  (line 334), which converts an object or array to a string first.
\<close>

fun find_status :: "(jsval \<Rightarrow> bool) \<Rightarrow> jsval list \<Rightarrow> error + jsval" where
  "find_status is_key [] = Inr Undefined"
| "find_status is_key (r # rs) =
     (case get_prop r ''key'' of
        Inl e \<Rightarrow> Inl e
      | Inr k \<Rightarrow> if is_key k then Inr r else find_status is_key rs)"

definition loose_equal_string :: "jsval \<Rightarrow> string \<Rightarrow> bool" where
  "loose_equal_string v s =
     (case v of
        Str t \<Rightarrow> t = s
      | Arr xs \<Rightarrow> to_string v = s
      | Obj ps \<Rightarrow> to_string v = s
      | _ \<Rightarrow> False)"

text \<open>
  \<^verbatim>\<open>event.instances.map(instance => rotateInstance(instance, rs._links.self.href))\<close>:
  the updates are started one after the other, before any is awaited; a call that
  throws ends the handler. The requests of one instance are listed together.
\<close>

fun rotate_each ::
  "remote \<Rightarrow> custom_mapper list \<Rightarrow> jsval \<Rightarrow> jsval list \<Rightarrow> request list
     \<Rightarrow> (error + outcome list) \<times> request list" where
  "rotate_each remote customMappers rs [] log = (Inr [], log)"
| "rotate_each remote customMappers rs (i # is) log =
     (case prop_path rs [''_links'', ''self'', ''href''] of
        Inl e \<Rightarrow> (Inl e, log)
      | Inr href \<Rightarrow>
          (case rotateInstance remote customMappers i href log of
             (Inl e, log') \<Rightarrow> (Inl e, log')
           | (Inr out, log') \<Rightarrow>
               (case rotate_each remote customMappers rs is log' of
                  (Inl e, log'') \<Rightarrow> (Inl e, log'')
                | (Inr outs, log'') \<Rightarrow> (Inr (out # outs), log''))))"

text \<open>\<^verbatim>\<open>Promise.all\<close> over promises that may never settle.\<close>

definition batch_outcome :: "outcome list \<Rightarrow> outcome" where
  "batch_outcome outs =
     (case filter (\<lambda>out. out \<noteq> Pending \<and> out \<noteq> Fulfilled) outs of
        r # _ \<Rightarrow> r
      | [] \<Rightarrow> if Pending \<in> set outs then Pending else Fulfilled)"

text \<open>
  What a rotation handler did: whether it threw, the outcome of every update it
  started, the requests made to the inventory, and the messages it had the listener
  delete.
\<close>

record handled =
  h_thrown :: "error option"
  h_outcomes :: "outcome list"
  h_requests :: "request list"
  h_deleted :: "string list"

record rotate_event =
  deletionToken :: string
  instances :: jsval

text \<open>Lines 249-260 and 335-346: start every update, acknowledge when all fulfil.\<close>

definition rotate_all ::
  "remote \<Rightarrow> custom_mapper list \<Rightarrow> jsval \<Rightarrow> rotate_event \<Rightarrow> jsval list \<Rightarrow> request list \<Rightarrow> handled" where
  "rotate_all remote customMappers rs event is log =
     (case rotate_each remote customMappers rs is log of
        (Inl e, log') \<Rightarrow>
          \<lparr>h_thrown = Some e, h_outcomes = [], h_requests = log', h_deleted = []\<rparr>
      | (Inr outs, log') \<Rightarrow>
          \<lparr>h_thrown = None, h_outcomes = outs, h_requests = log',
           h_deleted = (if batch_outcome outs = Fulfilled then [deletionToken event] else [])\<rparr>)"

definition threw :: "error \<Rightarrow> request list \<Rightarrow> handled" where
  "threw e log = \<lparr>h_thrown = Some e, h_outcomes = [], h_requests = log, h_deleted = []\<rparr>"

text \<open>
  \<^verbatim>\<open>instanceRotateInHandler\<close> (lines 243-262). \<open>rotationStatuses\<close> is
  \<^verbatim>\<open>self.rotationStatuses\<close>. Line 248 reads \<^verbatim>\<open>InstanceId\<close> of every instance for
  the log line.
\<close>

definition instanceRotateInHandler ::
  "remote \<Rightarrow> custom_mapper list \<Rightarrow> jsval \<Rightarrow> rotate_event \<Rightarrow> request list \<Rightarrow> handled" where
  "instanceRotateInHandler remote customMappers rotationStatuses event log =
     (if \<not> truthy (instances event)
      then \<lparr>h_thrown = None, h_outcomes = [], h_requests = log, h_deleted = []\<rparr>
      else (case rotationStatuses of
              Arr statuses \<Rightarrow>
                (case find_status (\<lambda>k. k = Str ''enabled'') statuses of
                   Inl e \<Rightarrow> threw e log
                 | Inr rs \<Rightarrow>
                     (case instances event of
                        Arr is \<Rightarrow>
                          if list_ex (\<lambda>i. i = Undefined \<or> i = Null) is then threw TypeError log
                          else rotate_all remote customMappers rs event is log
                      | _ \<Rightarrow> threw TypeError log))
            | _ \<Rightarrow> threw TypeError log))"

text \<open>\<^verbatim>\<open>instanceRotateOutHandler\<close> (lines 331-348).\<close>

definition instanceRotateOutHandler ::
  "remote \<Rightarrow> custom_mapper list \<Rightarrow> jsval \<Rightarrow> rotate_event \<Rightarrow> request list \<Rightarrow> handled" where
  "instanceRotateOutHandler remote customMappers rotationStatuses event log =
     (if \<not> truthy (instances event)
      then \<lparr>h_thrown = None, h_outcomes = [], h_requests = log, h_deleted = []\<rparr>
      else (case rotationStatuses of
              Arr statuses \<Rightarrow>
                (case find_status (\<lambda>k. loose_equal_string k ''disabled'') statuses of
                   Inl e \<Rightarrow> threw e log
                 | Inr rs \<Rightarrow>
                     (case instances event of
                        Arr is \<Rightarrow> rotate_all remote customMappers rs event is log
                      | _ \<Rightarrow> threw TypeError log))
            | _ \<Rightarrow> threw TypeError log))"

section \<open>The mapper chain as the specification words it\<close>

text \<open>
  The stages \<open>ms\<close>, run in order from \<open>node\<close>, all succeed and end with
  \<open>out\<close>: each stage is given the node that the stage before it returned, and
  \<open>called\<close> lists the stages by name with the node each was given. This relation is
  written from the specification, to compare \<open>map_mappers\<close> with.
\<close>

inductive passes ::
  "custom_mapper list \<Rightarrow> jsval \<Rightarrow> jsval \<Rightarrow> (string \<times> jsval) list \<Rightarrow> bool" where
  passes_none: "passes [] node node []"
| passes_stage:
    "m_map m node = Some (err, node') \<Longrightarrow> \<not> truthy err \<Longrightarrow> passes ms node' out called
       \<Longrightarrow> passes (m # ms) node out ((m_name m, node) # called)"

section \<open>Concrete inputs\<close>

text \<open>
  Two load-balancer registration events as \<^verbatim>\<open>JSON.parse\<close> gives them: one whose
  list of instances is empty, one whose only instance has no \<^verbatim>\<open>instanceId\<close>.
\<close>

definition registration_event :: "jsval \<Rightarrow> jsval" where
  "registration_event instance_list =
     Obj [(''detail-type'', Str ''AWS API Call via CloudTrail''),
          (''region'', Str ''us-east-1''),
          (''detail'',
             Obj [(''eventName'', Str ''RegisterInstancesWithLoadBalancer''),
                  (''requestParameters'',
                     Obj [(''instances'', instance_list),
                          (''loadBalancerName'', Str ''web-lb'')])])]"

definition empty_batch_event :: jsval where
  "empty_batch_event = registration_event (Arr [])"

definition no_id_event :: jsval where
  "no_id_event = registration_event (Arr [Obj []])"

text \<open>A control plane that knows no autoscaled instance and no reservation.\<close>

definition quiet_aws :: aws where
  "quiet_aws =
     \<lparr>describeAutoScalingInstances = (\<lambda>ids. Inr (Obj [(''AutoScalingInstances'', Arr [])])),
      describeLoadBalancers = Inr (Obj [(''LoadBalancerDescriptions'', Arr [])]),
      describeInstances = (\<lambda>ids. Inr (Obj [(''Reservations'', Arr [])]))\<rparr>"

text \<open>
  A call of the load-balancer API that CloudTrail reports like a registration, with a
  load-balancer name and an instance, but which neither registers nor deregisters.
\<close>

definition health_query_event :: jsval where
  "health_query_event =
     Obj [(''detail-type'', Str ''AWS API Call via CloudTrail''),
          (''region'', Str ''us-east-1''),
          (''detail'',
             Obj [(''eventName'', Str ''DescribeInstanceHealth''),
                  (''requestParameters'',
                     Obj [(''instances'', Arr [Obj [(''instanceId'', Str ''i-0a1'')]]),
                          (''loadBalancerName'', Str ''web-lb'')])])]"

text \<open>A \<^verbatim>\<open>JSON.parse\<close> that gives \<open>m\<close> for the body at hand.\<close>

definition parses_to :: "jsval \<Rightarrow> jsval \<Rightarrow> jsval option" where
  "parses_to m body = Some m"

text \<open>The effect that acknowledges a message, and the effects that are semantic events.\<close>

fun is_deletion :: "listener_effect \<Rightarrow> bool" where
  "is_deletion (Sqs_deleteMessage t) = True"
| "is_deletion e = False"

fun is_semantic_event :: "listener_effect \<Rightarrow> bool" where
  "is_semantic_event (Emit_instance_rotate_in t is) = True"
| "is_semantic_event (Emit_instance_rotate_out t is) = True"
| "is_semantic_event e = False"

definition state_change_event :: jsval where
  "state_change_event =
     Obj [(''detail-type'', Str ''EC2 Instance State-change Notification''),
          (''detail'', Obj [(''instance-id'', Str ''i-0a1''), (''state'', Str ''running'')])]"

text \<open>Three custom mappers: one sets a property, one fails, one must not be reached.\<close>

definition os_mapper :: custom_mapper where
  "os_mapper = \<lparr>m_name = ''os'', m_map = (\<lambda>node. Some (Null, set_prop node ''os'' (Str ''linux'')))\<rparr>"

definition broken_mapper :: custom_mapper where
  "broken_mapper = \<lparr>m_name = ''broken'', m_map = (\<lambda>node. Some (Str ''no owner'', Undefined))\<rparr>"

definition last_mapper :: custom_mapper where
  "last_mapper = \<lparr>m_name = ''last'', m_map = (\<lambda>node. Some (Null, Null))\<rparr>"

definition plain_node :: jsval where
  "plain_node = Obj [(''name'', Str ''i-0a1''), (''tags'', Obj [(''AWS Instance ID'', Str ''i-0a1'')])]"

text \<open>Records of the inventory, each with its self link.\<close>

definition rest_record :: "string \<Rightarrow> (string \<times> jsval) list \<Rightarrow> jsval" where
  "rest_record link properties =
     Obj ((''_links'', Obj [(''self'', Obj [(''href'', Str link)])]) # properties)"

definition list_response :: "string \<Rightarrow> jsval list \<Rightarrow> jsval" where
  "list_response resourceName items = Obj [(''_embedded'', Obj [(resourceName, Arr items)])]"

definition node7 :: jsval where
  "node7 = rest_record ''https://seiso/nodes/7'' [(''name'', Str ''i-0a1'')]"

definition default_role :: jsval where
  "default_role = rest_record ''https://seiso/ipAddressRoles/9'' [(''name'', Str ''default'')]"

definition ip_record :: "string \<Rightarrow> string \<Rightarrow> jsval" where
  "ip_record n address =
     rest_record (''https://seiso/nodeIpAddresses/'' @ n) [(''ipAddress'', Str address)]"

text \<open>
  An inventory in which node 7 has the addresses \<open>existing\<close> and service instance 3
  has a default role, and which accepts every delete and create.
\<close>

definition ip_remote :: "jsval list \<Rightarrow> remote" where
  "ip_remote existing log rq =
     (if rq_method rq = ''GET'' \<and> rq_resource rq = ''nodes/7/ipAddresses''
      then Inr (list_response ''nodeIpAddresses'' existing)
      else if rq_method rq = ''GET'' \<and> rq_resource rq = ''serviceInstances/3/ipAddressRoles''
      then Inr (list_response ''ipAddressRoles'' [default_role])
      else Inr Null)"

text \<open>
  An inventory in which every create meets a conflict, while every lookup answers
  with \<open>found\<close>.
\<close>

definition conflict_remote :: "jsval \<Rightarrow> remote" where
  "conflict_remote found log rq =
     (if rq_method rq = ''POST'' then Inl (HttpError 409) else Inr found)"

definition machine5 :: jsval where
  "machine5 = rest_record ''https://seiso/machines/5'' [(''name'', Str ''ip-10-0-0-1.ec2.internal'')]"

definition machine_params :: jsval where
  "machine_params =
     Obj [(''name'', Str ''ip-10-0-0-1.ec2.internal''), (''hostname'', Str ''ip-10-0-0-1'')]"

definition node_request :: jsval where
  "node_request =
     Obj [(''name'', Str ''i-0a1''), (''version'', Str ''1.0.0''),
          (''serviceInstanceId'', Str ''3''),
          (''serviceInstanceLink'', Str ''https://seiso/serviceInstances/3''),
          (''machine'', Str ''https://seiso/machines/5''),
          (''ipAddresses'', Arr [Str ''10.0.0.1'']),
          (''tage'', Obj [(''AWS Instance ID'', Str ''i-0a1'')])]"

text \<open>The instances of a rotation event, and the cached rotation statuses.\<close>

definition instance_details :: "string \<Rightarrow> jsval" where
  "instance_details instanceId =
     Obj [(''InstanceId'', Str instanceId),
          (''PrivateDnsName'', Str ''ip-10-0-0-1.ec2.internal''),
          (''region'', Str ''us-east-1'')]"

definition rotation_statuses :: jsval where
  "rotation_statuses =
     Arr [rest_record ''https://seiso/rotationStatuses/1'' [(''key'', Str ''enabled'')],
          rest_record ''https://seiso/rotationStatuses/2'' [(''key'', Str ''disabled'')]]"

text \<open>
  An inventory that answers the lookup of a node by name with \<open>lookup name\<close>, and
  every other request with \<open>patched\<close>.
\<close>

definition rotation_remote :: "(string \<Rightarrow> error + jsval) \<Rightarrow> error + jsval \<Rightarrow> remote" where
  "rotation_remote lookup patched log rq =
     (if rq_method rq = ''GET''
      then (case map_of (rq_query rq) ''name'' of
              Some (Str name) \<Rightarrow> lookup name
            | _ \<Rightarrow> Inl (HttpError 400))
      else patched)"

definition known_nodes :: "string \<Rightarrow> error + jsval" where
  "known_nodes name =
     (if name = ''i-0b2'' then Inr (Arr [])
      else Inr (rest_record (''https://seiso/nodes/'' @ name) [(''name'', Str name)]))"

text \<open>The requests that the inputs above lead to.\<close>

definition list_request :: "string \<Rightarrow> request" where
  "list_request path =
     \<lparr>rq_method = ''GET'', rq_resource = path,
      rq_query = [(''size'', Num 500), (''page'', Num 0)], rq_body = Undefined\<rparr>"

definition delete_ip_request :: "string \<Rightarrow> request" where
  "delete_ip_request n =
     \<lparr>rq_method = ''DELETE'', rq_resource = ''nodeIpAddresses/'' @ n, rq_query = [],
      rq_body = Undefined\<rparr>"

definition create_ip_request :: "jsval \<Rightarrow> request" where
  "create_ip_request address =
     \<lparr>rq_method = ''POST'', rq_resource = ''nodeIpAddresses'', rq_query = [],
      rq_body = Obj [(''node'', Str ''https://seiso/nodes/7''),
                     (''ipAddressRole'', Str ''https://seiso/ipAddressRoles/9''),
                     (''ipAddress'', address)]\<rparr>"

definition lookup_request :: "string \<Rightarrow> request" where
  "lookup_request name =
     \<lparr>rq_method = ''GET'', rq_resource = ''nodes/search/findByName'',
      rq_query = [(''size'', Num 500), (''page'', Num 0), (''name'', Str name)],
      rq_body = Undefined\<rparr>"

definition patch_request :: "string \<Rightarrow> string \<Rightarrow> request" where
  "patch_request n status =
     \<lparr>rq_method = ''PATCH'', rq_resource = ''nodes/'' @ n, rq_query = [],
      rq_body = Obj [(''aggregateRotationStatus'', Str status)]\<rparr>"

definition create_request :: "string \<Rightarrow> jsval \<Rightarrow> request" where
  "create_request path payload =
     \<lparr>rq_method = ''POST'', rq_resource = path, rq_query = [], rq_body = payload\<rparr>"

text \<open>
  An inventory that knows no service, service instance, machine or node yet and
  accepts every create; \<open>node_created\<close> is its answer to the create of the node.
\<close>

definition empty_inventory :: "error + jsval \<Rightarrow> remote" where
  "empty_inventory node_created log rq =
     (if rq_method rq = ''GET'' \<and>
         rq_resource rq \<in> set [''nodes/search/findByName'', ''services/search/findByKey'',
                               ''serviceInstances/search/findByKey'', ''machines/search/findByName'']
      then Inl (HttpError 404)
      else if rq_method rq = ''GET'' \<and> rq_resource rq = ''nodes/7/ipAddresses''
      then Inr (list_response ''nodeIpAddresses'' [])
      else if rq_method rq = ''GET'' \<and> rq_resource rq = ''serviceInstances/3/ipAddressRoles''
      then Inr (list_response ''ipAddressRoles'' [default_role])
      else if rq_method rq = ''POST'' \<and> rq_resource rq = ''services/''
      then Inr (rest_record ''https://seiso/services/1'' [])
      else if rq_method rq = ''POST'' \<and> rq_resource rq = ''serviceInstances/''
      then Inr (rest_record ''https://seiso/serviceInstances/3'' [])
      else if rq_method rq = ''POST'' \<and> rq_resource rq = ''machines/''
      then Inr machine5
      else if rq_method rq = ''POST'' \<and> rq_resource rq = ''nodes/''
      then node_created
      else Inr Null)"

definition upsert_params :: jsval where
  "upsert_params =
     Obj [(''service'', Str ''billing''), (''environment'', Str ''aws-test''),
          (''environmentType'', Str ''test''), (''name'', Str ''i-0a1''),
          (''machineName'', Str ''ip-10-0-0-1.ec2.internal''), (''hostname'', Str ''ip-10-0-0-1''),
          (''ipAddress'', Str ''10.0.0.1''), (''ports'', Arr [Num 443, Num 8080]),
          (''tags'', Obj [(''AWS Instance ID'', Str ''i-0a1'')])]"

text \<open>The two requirements of the upsert, in the words of the specification.\<close>

definition lacks_instance_id_tag :: "jsval \<Rightarrow> bool" where
  "lacks_instance_id_tag params =
     (case prop_path params [''tags'', ''AWS Instance ID''] of
        Inr v \<Rightarrow> v = Undefined
      | Inl e \<Rightarrow> True)"

definition lacks_ports :: "jsval \<Rightarrow> bool" where
  "lacks_ports params =
     (case get_prop params ''ports'' of
        Inr (Arr (p # ps)) \<Rightarrow> False
      | _ \<Rightarrow> True)"

definition no_client :: seiso_client where
  "no_client = \<lparr>c_preCache = Inr (), c_environments = [], c_dataCenters = []\<rparr>"

section \<open>Properties of mapper.js\<close>

lemma split_on_nonempty: "split_on c s \<noteq> []"
  by (induction s) (auto split: list.splits)

lemma validateMessage_object_total:
  assumes "get_prop (Obj ps) ''PrivateDnsName'' = Inr dns"
    and "\<not> truthy dns \<or> (\<exists>fqdn. dns = Str fqdn)"
  shows "\<exists>errs. validateMessage (Obj ps) = Inr errs"
  using assms
  by (auto simp: validateMessage_def Let_def split: sum.splits jsval.splits option.splits)

text \<open>
  C10. \<^verbatim>\<open>validateMessage\<close> called with \<^verbatim>\<open>null\<close> or \<^verbatim>\<open>undefined\<close> throws a
  \<^verbatim>\<open>TypeError\<close>: it reads \<^verbatim>\<open>details.InstanceId\<close> before its guard. Whenever it
  returns a list, the details were neither \<^verbatim>\<open>null\<close> nor \<^verbatim>\<open>undefined\<close>, and the
  list never holds the message of the guard, \<^verbatim>\<open>Instance details not present\<close>.
\<close>

theorem validateMessage_null_throws:
  "validateMessage Null = Inl TypeError \<and>
   validateMessage Undefined = Inl TypeError \<and>
   (\<forall>details errs. validateMessage details = Inr errs \<longrightarrow>
      details \<noteq> Null \<and> details \<noteq> Undefined \<and> ''Instance details not present'' \<notin> set errs)"
proof -
  have n: "validateMessage Null = Inl TypeError"
    by (simp add: validateMessage_def)
  have u: "validateMessage Undefined = Inl TypeError"
    by (simp add: validateMessage_def)
  have r: "details \<noteq> Null \<and> details \<noteq> Undefined \<and> ''Instance details not present'' \<notin> set errs"
    if "validateMessage details = Inr errs" for details errs
  proof -
    from that n u have d: "details \<noteq> Null" "details \<noteq> Undefined"
      by auto
    with that show ?thesis
      by (auto simp: validateMessage_def Let_def split: sum.splits jsval.splits if_splits)
  qed
  from n u r show ?thesis by blast
qed

theorem validateMessage_null_throws_witness:
  "validateMessage (Obj [(''InstanceId'', Str ''i-0a1''),
                         (''PrivateDnsName'', Str ''ip-10-0-0-1.ec2.internal'')]) = Inr [] \<and>
   Obj [(''InstanceId'', Str ''i-0a1''), (''PrivateDnsName'', Str ''ip-10-0-0-1.ec2.internal'')] \<noteq> Null \<and>
   ''Instance details not present'' \<notin> set ([] :: string list) \<and>
   validateMessage Null = Inl TypeError"
proof -
  have v: "validateMessage (Obj [(''InstanceId'', Str ''i-0a1''),
             (''PrivateDnsName'', Str ''ip-10-0-0-1.ec2.internal'')]) = Inr []"
    by (simp add: validateMessage_def)
  from validateMessage_null_throws v show ?thesis by simp
qed

section \<open>Properties of listener.js\<close>

lemma parse_message_plain:
  "get_prop m ''Message'' = Inr Undefined \<Longrightarrow> parse_message (\<lambda>v. Some m) raw = m"
  by (simp add: parse_message_def)

lemma messageValidate_empty_batch: "messageValidate empty_batch_event = Inr True"
  by (simp add: messageValidate_def empty_batch_event_def registration_event_def)

lemma messageValidate_no_id: "messageValidate no_id_event = Inr True"
  by (simp add: messageValidate_def no_id_event_def registration_event_def)

text \<open>
  With an array of instances, the verdict depends on the load-balancer name and the
  event name alone.
\<close>

lemma messageValidate_names_only:
  assumes "get_prop message ''detail'' = Inr detail"
    and "get_prop detail ''requestParameters'' = Inr rp"
    and "get_prop rp ''instances'' = Inr (Arr xs)"
    and "filter_instanceId xs = Inr kept"
    and "get_prop rp ''loadBalancerName'' = Inr lb"
    and "get_prop detail ''eventName'' = Inr eventName"
  shows "messageValidate message = Inr (truthy lb \<and> truthy eventName)"
  using assms by (simp add: messageValidate_def)

text \<open>
  C5. The code at the failing inputs: a registration event whose instance list is
  empty, and one whose only instance carries no \<^verbatim>\<open>instanceId\<close>, both pass
  \<^verbatim>\<open>messageValidate\<close>; \<^verbatim>\<open>processMessage\<close> does not throw on the first but goes
  on to the control plane and emits \<^verbatim>\<open>instance-rotate-in\<close> with no instance.
\<close>

theorem messageValidate_accepts_no_instance_id:
  "messageValidate empty_batch_event = Inr True \<and>
   messageValidate no_id_event = Inr True \<and>
   processMessage (\<lambda>v. Some empty_batch_event) quiet_aws \<lparr>Body = body, ReceiptHandle = token\<rparr> =
     (Inr (),
      [Emit_message \<lparr>Body = body, ReceiptHandle = token\<rparr>,
       Aws_describeAutoScalingInstances [Undefined],
       Aws_describeLoadBalancers,
       Aws_describeInstances [],
       Emit_instance_rotate_in token []])"
proof -
  have m: "parse_message (\<lambda>v. Some empty_batch_event) \<lparr>Body = body, ReceiptHandle = token\<rparr>
             = empty_batch_event"
    by (rule parse_message_plain) (simp add: empty_batch_event_def registration_event_def)
  have p: "processMessage (\<lambda>v. Some empty_batch_event) quiet_aws \<lparr>Body = body, ReceiptHandle = token\<rparr> =
     (Inr (),
      [Emit_message \<lparr>Body = body, ReceiptHandle = token\<rparr>,
       Aws_describeAutoScalingInstances [Undefined],
       Aws_describeLoadBalancers,
       Aws_describeInstances [],
       Emit_instance_rotate_in token []])"
    unfolding processMessage_def m Let_def messageValidate_empty_batch
    by (simp add: empty_batch_event_def registration_event_def quiet_aws_def
        EC2_INSTANCE_LB_REGISTRATION_EVENT_TYPE_def resolveLoadBalancer_def)
  from messageValidate_empty_batch messageValidate_no_id p show ?thesis by blast
qed

theorem messageValidate_accepts_no_instance_id_witness:
  "fst (processMessage (\<lambda>v. Some empty_batch_event) quiet_aws \<lparr>Body = ''{}'', ReceiptHandle = ''rh-1''\<rparr>)
     = Inr ()"
  using messageValidate_accepts_no_instance_id [of "''{}''" "''rh-1''"] by simp

text \<open>
  C6. A message whose \<^verbatim>\<open>detail-type\<close> can be read, and is not the type of the
  load-balancer registration events, is deleted at once: \<^verbatim>\<open>processMessage\<close> returns
  without throwing, and all it does is emit the raw \<^verbatim>\<open>message\<close> event and delete the
  message by its receipt handle. No \<^verbatim>\<open>instance-rotate-in\<close> or
  \<^verbatim>\<open>instance-rotate-out\<close> is emitted and the control plane is not called.
\<close>

theorem unrecognized_message_discarded:
  assumes "get_prop (parse_message json_parse raw) ''detail-type'' = Inr detail_type"
    and "detail_type \<noteq> Str EC2_INSTANCE_LB_REGISTRATION_EVENT_TYPE"
  shows "processMessage json_parse a raw =
           (Inr (), [Emit_message raw, Sqs_deleteMessage (ReceiptHandle raw)])"
  using assms by (simp add: processMessage_def Let_def)

theorem unrecognized_message_discarded_witness:
  "processMessage (\<lambda>v. Some state_change_event) quiet_aws \<lparr>Body = ''{}'', ReceiptHandle = ''rh-2''\<rparr> =
     (Inr (), [Emit_message \<lparr>Body = ''{}'', ReceiptHandle = ''rh-2''\<rparr>, Sqs_deleteMessage ''rh-2''])"
proof -
  have m: "parse_message (\<lambda>v. Some state_change_event) \<lparr>Body = ''{}'', ReceiptHandle = ''rh-2''\<rparr>
             = state_change_event"
    by (rule parse_message_plain) (simp add: state_change_event_def)
  have d: "get_prop (parse_message (\<lambda>v. Some state_change_event) \<lparr>Body = ''{}'', ReceiptHandle = ''rh-2''\<rparr>)
             ''detail-type'' = Inr (Str ''EC2 Instance State-change Notification'')"
    unfolding m by (simp add: state_change_event_def)
  have n: "Str ''EC2 Instance State-change Notification'' \<noteq> Str EC2_INSTANCE_LB_REGISTRATION_EVENT_TYPE"
    by (simp add: EC2_INSTANCE_LB_REGISTRATION_EVENT_TYPE_def)
  from unrecognized_message_discarded [OF d n, of quiet_aws] show ?thesis by simp
qed

text \<open>
  C6, as it was stated, fails on the code: a message of the CloudTrail type whose event
  is neither a registration nor a deregistration (here \<^verbatim>\<open>DescribeInstanceHealth\<close>) is
  not deleted. \<^verbatim>\<open>processMessage\<close> validates it, asks the control plane about its
  instance, and then skips it: no event but the raw one, and no deletion.
\<close>

theorem other_api_call_not_discarded:
  "processMessage (parses_to health_query_event) quiet_aws \<lparr>Body = ''{}'', ReceiptHandle = ''rh-3''\<rparr> =
     (Inr (),
      [Emit_message \<lparr>Body = ''{}'', ReceiptHandle = ''rh-3''\<rparr>,
       Aws_describeAutoScalingInstances [Str ''i-0a1''],
       Aws_describeLoadBalancers,
       Aws_describeInstances [Str ''i-0a1'']]) \<and>
   Sqs_deleteMessage ''rh-3'' \<notin>
     set (snd (processMessage (parses_to health_query_event) quiet_aws
                 \<lparr>Body = ''{}'', ReceiptHandle = ''rh-3''\<rparr>))"
  by code_simp

text \<open>
  The same holds of every message of the CloudTrail type, whatever its event name and whatever
  the control plane answers. The effects of \<^verbatim>\<open>processMessage\<close> on such a message are the raw
  \<^verbatim>\<open>message\<close> event alone (the message was invalid, or lacked a list of instances, and the
  function threw), or that event followed by the control-plane calls, or those followed by one
  semantic event, and the last only when the event name is one of the two registration calls.
  A deletion is in none of the three: \<^verbatim>\<open>listener.js\<close> deletes a message only in the branch of
  the other detail types. A message with another event name reaches the final
  \<^verbatim>\<open>else\<close> (``Skipping non-registration change'') and emits no semantic event.
\<close>

lemma resolveLoadBalancer_calls_only:
  "list_all (\<lambda>e. \<not> is_deletion e \<and> \<not> is_semantic_event e) (resolveLoadBalancer a i)"
  by (simp add: resolveLoadBalancer_def split: sum.split option.split)

lemma processMessage_cloudtrail_shape:
  assumes "get_prop (parse_message json_parse raw) ''detail-type'' =
             Inr (Str EC2_INSTANCE_LB_REGISTRATION_EVENT_TYPE)"
  shows "(\<exists>i ids. snd (processMessage json_parse a raw) =
            Emit_message raw # resolveLoadBalancer a i @ [Aws_describeInstances ids]) \<or>
         (\<exists>i ids e. snd (processMessage json_parse a raw) =
            Emit_message raw # resolveLoadBalancer a i @ [Aws_describeInstances ids] @ [e] \<and>
            is_semantic_event e \<and>
            (prop_path (parse_message json_parse raw) [''detail'', ''eventName''] \<in>
               {Inr (Str ''DeregisterInstancesFromLoadBalancer''),
                Inr (Str ''RegisterInstancesWithLoadBalancer'')})) \<or>
         snd (processMessage json_parse a raw) = [Emit_message raw]"
proof -
  let ?m = "parse_message json_parse raw"
  show ?thesis
  proof (cases "messageValidate ?m")
    case (Inl e)
    with assms show ?thesis by (simp add: processMessage_def Let_def)
  next
    case (Inr ok)
    show ?thesis
    proof (cases ok)
      case False
      with Inr assms show ?thesis by (simp add: processMessage_def Let_def)
    next
      case True
      show ?thesis
      proof (cases "prop_path ?m [''detail'', ''requestParameters'', ''instances'']")
        case (Inl e)
        with Inr True assms show ?thesis by (simp add: processMessage_def Let_def)
      next
        case (Inr v)
        note v = this
        show ?thesis
        proof (cases "\<exists>xs. v = Arr xs")
          case False
          with v Inr \<open>messageValidate ?m = Inr ok\<close> True assms show ?thesis
            by (cases v) (simp_all add: processMessage_def Let_def)
        next
          case True
          then obtain xs where xs: "v = Arr xs" by blast
          with v \<open>messageValidate ?m = Inr ok\<close> \<open>ok\<close> assms show ?thesis
            apply (simp add: processMessage_def Let_def del: prop_path.simps split: sum.split)
            apply (auto split: sum.splits jsval.splits simp del: prop_path.simps)
            done
        qed
      qed
    qed
  qed
qed

lemma cloudtrail_message_never_deleted:
  assumes "get_prop (parse_message json_parse raw) ''detail-type'' =
             Inr (Str EC2_INSTANCE_LB_REGISTRATION_EVENT_TYPE)"
  shows "list_all (\<lambda>e. \<not> is_deletion e) (snd (processMessage json_parse a raw))"
proof -
  have calls: "list_all (\<lambda>e. \<not> is_deletion e) (resolveLoadBalancer a i)" for i
    using resolveLoadBalancer_calls_only [of a i] by (simp add: list_all_iff)
  have sem: "is_semantic_event e \<Longrightarrow> \<not> is_deletion e" for e
    by (cases e) simp_all
  from processMessage_cloudtrail_shape [OF assms, of a] show ?thesis
    by (auto simp: calls sem)
qed

lemma cloudtrail_other_event_skipped:
  assumes "get_prop (parse_message json_parse raw) ''detail-type'' =
             Inr (Str EC2_INSTANCE_LB_REGISTRATION_EVENT_TYPE)"
    and "prop_path (parse_message json_parse raw) [''detail'', ''eventName''] \<noteq>
           Inr (Str ''DeregisterInstancesFromLoadBalancer'')"
    and "prop_path (parse_message json_parse raw) [''detail'', ''eventName''] \<noteq>
           Inr (Str ''RegisterInstancesWithLoadBalancer'')"
  shows "list_all (\<lambda>e. \<not> is_semantic_event e) (snd (processMessage json_parse a raw))"
proof -
  have calls: "list_all (\<lambda>e. \<not> is_semantic_event e) (resolveLoadBalancer a i)" for i
    using resolveLoadBalancer_calls_only [of a i] by (simp add: list_all_iff)
  from processMessage_cloudtrail_shape [OF assms(1), of a] assms(2,3) show ?thesis
    by (auto simp: calls simp del: prop_path.simps)
qed

text \<open>
  So the messages that \<^verbatim>\<open>processMessage\<close> deletes are exactly those whose
  \<^verbatim>\<open>detail-type\<close> can be read and is not the CloudTrail type.
\<close>

lemma message_deleted_iff:
  "list_ex is_deletion (snd (processMessage json_parse a raw)) \<longleftrightarrow>
     (\<exists>d. get_prop (parse_message json_parse raw) ''detail-type'' = Inr d \<and>
          d \<noteq> Str EC2_INSTANCE_LB_REGISTRATION_EVENT_TYPE)"
proof (cases "get_prop (parse_message json_parse raw) ''detail-type''")
  case (Inl e)
  then show ?thesis by (simp add: processMessage_def Let_def)
next
  case (Inr d)
  show ?thesis
  proof (cases "d = Str EC2_INSTANCE_LB_REGISTRATION_EVENT_TYPE")
    case True
    with Inr cloudtrail_message_never_deleted [of json_parse raw a] show ?thesis
      by (simp add: list_all_iff list_ex_iff)
  next
    case False
    with Inr show ?thesis by (simp add: processMessage_def Let_def)
  qed
qed

lemma detail_type_readable:
  assumes "parse_message json_parse raw \<noteq> Null" and "parse_message json_parse raw \<noteq> Undefined"
  shows "\<exists>detail_type. get_prop (parse_message json_parse raw) ''detail-type'' = Inr detail_type"
  using assms by (cases "parse_message json_parse raw") (auto split: option.splits)

lemma unparsable_message_discarded:
  assumes "json_parse (Str (Body raw)) = None"
  shows "processMessage json_parse a raw =
           (Inr (), [Emit_message raw, Sqs_deleteMessage (ReceiptHandle raw)])"
  using assms
  by (simp add: processMessage_def parse_message_def sqs_object_def Let_def)

lemma null_body_not_discarded:
  assumes "json_parse (Str (Body raw)) = Some Null"
  shows "processMessage json_parse a raw = (Inl TypeError, [Emit_message raw])"
  using assms by (simp add: processMessage_def parse_message_def Let_def)

section \<open>Properties of the lifecycle\<close>

lemma start_from_Stopped:
  "start (Some c) createOrchestrator =
     (True, createOrchestrator\<lparr>o_state := Starting, next_closure := 1,
              next_tick := [Once_started 0 c, Once_stopped 0 c], bootstrapped := 1\<rparr>)"
  by (simp add: start_def createOrchestrator_def)

lemma run_ticks_after_start:
  "run_ticks (snd (start (Some c) createOrchestrator)) =
     createOrchestrator\<lparr>o_state := Starting, next_closure := 1, bootstrapped := 1,
       started_listeners := [(0, c)], stopped_listeners := [(0, c)]\<rparr>"
  unfolding start_from_Stopped by (simp add: run_ticks_def createOrchestrator_def)

lemma failed_start_general:
  assumes "promise_all outcomes = Inl e"
  shows "settle_start outcomes (run_ticks (snd (start (Some c) createOrchestrator))) =
           createOrchestrator\<lparr>o_state := Started, next_closure := 1, bootstrapped := 1,
             notified := [0], invoked := [(c, CbError e), (c, CbNull)]\<rparr>"
  unfolding run_ticks_after_start using assms
  by (simp add: settle_start_def start_catch_handler_def
      start_then_handler_def emit_stopped_def emit_started_def createOrchestrator_def)

text \<open>
  C3. The code at the failing input: \<^verbatim>\<open>start(callback)\<close> on a fresh orchestrator,
  the queued registrations run, then the inventory client's connect rejects with
  \<open>e\<close> while listener and feeder start. The \<^verbatim>\<open>catch\<close> handler sets
  \<^verbatim>\<open>Stopped\<close> and the callback gets the failure; the \<^verbatim>\<open>then\<close> chained behind it
  runs all the same, so the state ends as \<^verbatim>\<open>Started\<close> and the callback is called a
  second time, with \<^verbatim>\<open>null\<close>.
\<close>

theorem failed_start_ends_Started:
  "fst (start (Some c) createOrchestrator) = True \<and>
   getState (start_catch_handler e (run_ticks (snd (start (Some c) createOrchestrator)))) = Stopped \<and>
   invoked (start_catch_handler e (run_ticks (snd (start (Some c) createOrchestrator))))
     = [(c, CbError e)] \<and>
   getState (settle_start [Inr (), Inr (), Inl e] (run_ticks (snd (start (Some c) createOrchestrator))))
     = Started \<and>
   invoked (settle_start [Inr (), Inr (), Inl e] (run_ticks (snd (start (Some c) createOrchestrator))))
     = [(c, CbError e), (c, CbNull)]"
proof -
  have p: "promise_all [Inr (), Inr (), Inl e] = Inl e"
    by simp
  have a: "fst (start (Some c) createOrchestrator) = True"
    unfolding start_from_Stopped by simp
  have b: "start_catch_handler e (run_ticks (snd (start (Some c) createOrchestrator))) =
             createOrchestrator\<lparr>o_state := Stopped, next_closure := 1, bootstrapped := 1,
               started_listeners := [(0, c)], invoked := [(c, CbError e)]\<rparr>"
    unfolding run_ticks_after_start
    by (simp add: start_catch_handler_def emit_stopped_def createOrchestrator_def)
  show ?thesis
    unfolding failed_start_general [OF p] b a
    by (simp add: getState_def createOrchestrator_def)
qed

theorem failed_start_ends_Started_witness:
  "getState (settle_start [Inr (), Inr (), Inl (HttpError 503)]
               (run_ticks (snd (start (Some 0) createOrchestrator)))) = Started \<and>
   invoked (settle_start [Inr (), Inr (), Inl (HttpError 503)]
              (run_ticks (snd (start (Some 0) createOrchestrator))))
     = [(0, CbError (HttpError 503)), (0, CbNull)]"
  using failed_start_ends_Started [of 0 "HttpError 503"] by simp

text \<open>
  C7. \<^verbatim>\<open>start\<close> in state \<^verbatim>\<open>Started\<close> returns \<^verbatim>\<open>false\<close> and changes nothing but
  the queue of the next tick, where a given callback waits to be called with
  \<^verbatim>\<open>null\<close>; the callback has not been called when \<^verbatim>\<open>start\<close> returns, and is
  called once, with \<^verbatim>\<open>null\<close>, when the queue runs. \<^verbatim>\<open>start\<close> in state
  \<^verbatim>\<open>Starting\<close> returns \<^verbatim>\<open>false\<close>, leaves the state \<^verbatim>\<open>Starting\<close> and does not
  bootstrap the components again.
\<close>

theorem start_when_Started_or_Starting:
  "(o_state s = Started \<longrightarrow>
      start callback s =
        (False, case callback of
                  None \<Rightarrow> s
                | Some c \<Rightarrow> s\<lparr>next_tick := next_tick s @ [Call_callback c CbNull]\<rparr>)) \<and>
   (o_state s = Started \<and> next_tick s = [] \<longrightarrow>
      invoked (snd (start (Some c) s)) = invoked s \<and>
      run_ticks (snd (start (Some c) s)) = s\<lparr>invoked := invoked s @ [(c, CbNull)]\<rparr>) \<and>
   (o_state s = Starting \<longrightarrow>
      fst (start callback s) = False \<and>
      o_state (snd (start callback s)) = Starting \<and>
      bootstrapped (snd (start callback s)) = bootstrapped s \<and>
      invoked (snd (start callback s)) = invoked s)"
  by (cases callback) (simp_all add: start_def run_ticks_def Let_def)

lemma successful_start:
  "settle_start [Inr (), Inr (), Inr ()] (run_ticks (snd (start (Some c) createOrchestrator))) =
     createOrchestrator\<lparr>o_state := Started, next_closure := 1, bootstrapped := 1,
       notified := [0], stopped_listeners := [(0, c)], invoked := [(c, CbNull)]\<rparr>"
  unfolding run_ticks_after_start
  by (simp add: settle_start_def start_then_handler_def emit_started_def createOrchestrator_def)

theorem start_when_Started_or_Starting_witness:
  "o_state (settle_start [Inr (), Inr (), Inr ()]
              (run_ticks (snd (start (Some 0) createOrchestrator)))) = Started \<and>
   start (Some 1)
     (settle_start [Inr (), Inr (), Inr ()] (run_ticks (snd (start (Some 0) createOrchestrator)))) =
     (False,
      createOrchestrator\<lparr>o_state := Started, next_closure := 1, bootstrapped := 1,
        notified := [0], stopped_listeners := [(0, 0)], invoked := [(0, CbNull)],
        next_tick := [Call_callback 1 CbNull]\<rparr>) \<and>
   run_ticks (snd (start (Some 1)
     (settle_start [Inr (), Inr (), Inr ()] (run_ticks (snd (start (Some 0) createOrchestrator)))))) =
     createOrchestrator\<lparr>o_state := Started, next_closure := 1, bootstrapped := 1,
        notified := [0], stopped_listeners := [(0, 0)], invoked := [(0, CbNull), (1, CbNull)]\<rparr> \<and>
   o_state (snd (start None createOrchestrator)) = Starting \<and>
   fst (start (Some 2) (snd (start None createOrchestrator))) = False \<and>
   bootstrapped (snd (start (Some 2) (snd (start None createOrchestrator)))) = 1"
proof -
  let ?s = "settle_start [Inr (), Inr (), Inr ()] (run_ticks (snd (start (Some 0) createOrchestrator)))"
  let ?t = "snd (start None createOrchestrator)"
  have s: "o_state ?s = Started" "next_tick ?s = []"
    unfolding successful_start by (simp_all add: createOrchestrator_def)
  have t: "o_state ?t = Starting" "bootstrapped ?t = 1"
    by (simp_all add: start_def createOrchestrator_def)
  note started = start_when_Started_or_Starting [of ?s "Some 1" 1, unfolded option.case]
  from started s have 1: "start (Some 1) ?s = (False, ?s\<lparr>next_tick := next_tick ?s @ [Call_callback 1 CbNull]\<rparr>)"
    by blast
  from started s have 2: "run_ticks (snd (start (Some 1) ?s)) = ?s\<lparr>invoked := invoked ?s @ [(1, CbNull)]\<rparr>"
    by blast
  note starting = start_when_Started_or_Starting [of ?t "Some 2"]
  from starting t have 3: "fst (start (Some 2) ?t) = False" "bootstrapped (snd (start (Some 2) ?t)) = 1"
    by simp_all
  from s(1) 1 2 t(1) 3 show ?thesis
    unfolding successful_start by (simp add: createOrchestrator_def)
qed

section \<open>Properties of the custom mapper chain\<close>

declare map_mappers.simps [simp del]

lemma map_mappers_done:
  "length mappers \<le> index \<Longrightarrow> map_mappers mappers index node = (Some (Null, node), [])"
  by (subst map_mappers.simps) simp

lemma map_mappers_fails:
  assumes "index < length mappers"
    and "m_map (mappers ! index) node = Some (err, x)"
    and "truthy err"
  shows "map_mappers mappers index node =
           (Some (Obj [(''mapper'', Str (m_name (mappers ! index))), (''error'', err)], Undefined),
            [(m_name (mappers ! index), node)])"
  using assms by (subst map_mappers.simps) simp

lemma map_mappers_step:
  assumes "index < length mappers"
    and "m_map (mappers ! index) node = Some (err, node')"
    and "\<not> truthy err"
  shows "map_mappers mappers index node =
           (fst (map_mappers mappers (Suc index) node'),
            (m_name (mappers ! index), node) # snd (map_mappers mappers (Suc index) node'))"
  using assms by (subst map_mappers.simps) (simp split: prod.splits)

text \<open>
  Stages that pass, standing anywhere in the list, take \<open>map_mappers\<close> from their
  first index to the index behind them, with the node they end with.
\<close>

lemma map_mappers_passes:
  assumes "passes ms node out called"
  shows "map_mappers (before @ ms @ rest) (length before) node =
           (fst (map_mappers (before @ ms @ rest) (length before + length ms) out),
            called @ snd (map_mappers (before @ ms @ rest) (length before + length ms) out))"
  using assms
proof (induction arbitrary: before rule: passes.induct)
  case (passes_none node)
  show ?case by simp
next
  case (passes_stage m node err node' ms out called)
  let ?all = "before @ (m # ms) @ rest"
  have at: "?all ! length before = m" and lt: "length before < length ?all"
    by simp_all
  have step: "map_mappers ?all (length before) node =
                (fst (map_mappers ?all (Suc (length before)) node'),
                 (m_name m, node) # snd (map_mappers ?all (Suc (length before)) node'))"
    using map_mappers_step [OF lt, of node err node'] passes_stage.hyps(1,2) at by simp
  have shift: "?all = (before @ [m]) @ ms @ rest"
    by simp
  have ih: "map_mappers ?all (Suc (length before)) node' =
              (fst (map_mappers ?all (Suc (length before) + length ms) out),
               called @ snd (map_mappers ?all (Suc (length before) + length ms) out))"
    using passes_stage.IH [of "before @ [m]"] unfolding shift by simp
  show ?case
    unfolding step ih by simp
qed

lemma passes_names: "passes ms node out called \<Longrightarrow> map fst called = map m_name ms"
  by (induction rule: passes.induct) simp_all

lemma passes_all_succeed:
  assumes "passes ms node out called"
  shows "map_mappers ms 0 node = (Some (Null, out), called)"
  using map_mappers_passes [OF assms, of "[]" "[]"] by (simp add: map_mappers_done)

lemma passes_then_fails:
  assumes "passes ms node mid called"
    and "m_map m mid = Some (err, x)"
    and "truthy err"
  shows "map_mappers (ms @ m # later) 0 node =
           (Some (Obj [(''mapper'', Str (m_name m)), (''error'', err)], Undefined),
            called @ [(m_name m, mid)])"
proof -
  have lt: "length ms < length (ms @ m # later)" and at: "(ms @ m # later) ! length ms = m"
    by simp_all
  have fails: "map_mappers (ms @ m # later) (length ms) mid =
                 (Some (Obj [(''mapper'', Str (m_name m)), (''error'', err)], Undefined),
                  [(m_name m, mid)])"
    using map_mappers_fails [OF lt, of mid err x] assms(2,3) at by simp
  from map_mappers_passes [OF assms(1), of "[]" "m # later"] fails show ?thesis
    by simp
qed

lemma passes_then_hangs:
  assumes "passes ms node mid called" and "m_map m mid = None"
  shows "map_mappers (ms @ m # later) 0 node = (None, called @ [(m_name m, mid)])"
proof -
  have "map_mappers (ms @ m # later) (length ms) mid = (None, [(m_name m, mid)])"
    using assms(2) by (subst map_mappers.simps) simp
  with map_mappers_passes [OF assms(1), of "[]" "m # later"] show ?thesis
    by simp
qed

text \<open>
  C9. The chain runs its stages in list order, each on the node the stage before it
  returned. When every stage succeeds the callback gets the last node, and every
  stage was called once, in order. When a stage fails after the stages before it have
  succeeded, the callback gets the failure together with the name of that stage, and
  no later stage is called, whatever the later stages are; a stage that never calls
  back keeps every later stage from starting. In \<^verbatim>\<open>rotateInstance\<close> the node that
  a successful chain ends with is the one the lookup and patch are made for.
\<close>

theorem mapper_chain_sequential:
  "(passes ms node out called \<longrightarrow>
      map_mappers ms 0 node = (Some (Null, out), called) \<and> map fst called = map m_name ms) \<and>
   (passes ms node mid called \<and> m_map m mid = Some (err, x) \<and> truthy err \<longrightarrow>
      map_mappers (ms @ m # later) 0 node =
        (Some (Obj [(''mapper'', Str (m_name m)), (''error'', err)], Undefined),
         called @ [(m_name m, mid)])) \<and>
   (passes ms node mid called \<and> m_map m mid = None \<longrightarrow>
      map_mappers (ms @ m # later) 0 node = (None, called @ [(m_name m, mid)])) \<and>
   (passes ms node out called \<and> is_object instance \<and>
    validateMessage (set_prop instance ''state'' status) = Inr [] \<and>
    instanceToNode (set_prop instance ''state'' status) = Inr node \<longrightarrow>
      rotateInstance remote ms instance status log =
        (case lookup_and_patch remote out status log of
           (Inl e, log') \<Rightarrow> (Inr (RejectedWith e), log')
         | (Inr v, log') \<Rightarrow> (Inr Fulfilled, log')))"
  by (auto simp: passes_all_succeed passes_names passes_then_fails passes_then_hangs
      rotateInstance_def Let_def)

lemma os_mapper_passes:
  "passes [os_mapper] plain_node (set_prop plain_node ''os'' (Str ''linux'')) [(''os'', plain_node)]"
proof -
  have "passes [os_mapper] plain_node (set_prop plain_node ''os'' (Str ''linux''))
          [(m_name os_mapper, plain_node)]"
    by (rule passes_stage [where err = Null]) (auto simp: os_mapper_def intro: passes_none)
  then show ?thesis
    by (simp add: os_mapper_def)
qed

theorem mapper_chain_sequential_witness:
  "map_mappers [os_mapper] 0 plain_node =
     (Some (Null, set_prop plain_node ''os'' (Str ''linux'')), [(''os'', plain_node)]) \<and>
   map_mappers [os_mapper, broken_mapper, last_mapper] 0 plain_node =
     (Some (Obj [(''mapper'', Str ''broken''), (''error'', Str ''no owner'')], Undefined),
      [(''os'', plain_node), (''broken'', set_prop plain_node ''os'' (Str ''linux''))])"
proof -
  note chain = mapper_chain_sequential
    [of "[os_mapper]" plain_node "set_prop plain_node ''os'' (Str ''linux'')" "[(''os'', plain_node)]"
        "set_prop plain_node ''os'' (Str ''linux'')" broken_mapper "Str ''no owner''" Undefined
        "[last_mapper]"]
  have fails: "m_map broken_mapper (set_prop plain_node ''os'' (Str ''linux'')) =
                 Some (Str ''no owner'', Undefined)" "truthy (Str ''no owner'')"
    by (simp_all add: broken_mapper_def)
  from chain os_mapper_passes fails
  have 1: "map_mappers [os_mapper] 0 plain_node =
             (Some (Null, set_prop plain_node ''os'' (Str ''linux'')), [(''os'', plain_node)])"
    and 2: "map_mappers ([os_mapper] @ broken_mapper # [last_mapper]) 0 plain_node =
             (Some (Obj [(''mapper'', Str (m_name broken_mapper)), (''error'', Str ''no owner'')],
                    Undefined),
              [(''os'', plain_node)] @ [(m_name broken_mapper, set_prop plain_node ''os'' (Str ''linux''))])"
    by blast+
  from 1 2 show ?thesis
    by (simp add: broken_mapper_def)
qed

section \<open>Properties of the client\<close>

lemmas io_defs = and_then_def or_catch_def attempt_def resolve_def reject_def

lemma get_prop_defined:
  "v \<noteq> Null \<Longrightarrow> v \<noteq> Undefined \<Longrightarrow> \<exists>w. get_prop v k = Inr w"
  by (cases v) (simp_all split: option.split)

text \<open>
  C8. An upsert whose input has no \<^verbatim>\<open>AWS Instance ID\<close> tag, or no non-empty array
  of ports, is rejected with the validation error; no request has been made by then
  (the list of requests is what it was), and the error lists the message of every
  requirement that is not met.
\<close>

theorem upsert_rejects_invalid:
  assumes "params \<noteq> Null" and "params \<noteq> Undefined"
    and "lacks_instance_id_tag params \<or> lacks_ports params"
  shows "\<exists>errs.
           upsertNodeAsync remote client params log =
             (Inl (ValidationRejected ''One or more validation errors was found'' errs), log) \<and>
           (lacks_instance_id_tag params \<longrightarrow>
              ''Required tag 'AWS Instance ID' not present'' \<in> set errs) \<and>
           (lacks_ports params \<longrightarrow>
              ''At least one port must be specified (or ports are not in correct format)'' \<in> set errs)"
proof -
  from get_prop_defined [OF assms(1,2)] obtain tags where t: "get_prop params ''tags'' = Inr tags"
    by blast
  from get_prop_defined [OF assms(1,2)] obtain ports where p: "get_prop params ''ports'' = Inr ports"
    by blast
  have lt: "lacks_instance_id_tag params \<Longrightarrow>
              \<not> truthy tags \<or> (case get_prop tags ''AWS Instance ID'' of Inr v \<Rightarrow> \<not> truthy v | Inl e \<Rightarrow> True)"
    using t by (auto simp: lacks_instance_id_tag_def split: sum.splits)
  have lp: "lacks_ports params \<Longrightarrow> (case ports of Arr ps \<Rightarrow> length ps = 0 | _ \<Rightarrow> True)"
    using p by (auto simp: lacks_ports_def split: jsval.splits list.splits)
  show ?thesis
    using assms(3) lt lp
    by (auto simp: upsertNodeAsync_def upsert_validationErrors_def t p io_defs Let_def)
qed

theorem upsert_rejects_invalid_witness:
  "\<exists>errs.
     upsertNodeAsync (conflict_remote Null) no_client
       (Obj [(''name'', Str ''i-0a1''), (''ports'', Arr [])]) [] =
       (Inl (ValidationRejected ''One or more validation errors was found'' errs), []) \<and>
     ''Required tag 'AWS Instance ID' not present'' \<in> set errs \<and>
     ''At least one port must be specified (or ports are not in correct format)'' \<in> set errs"
proof -
  have "lacks_instance_id_tag (Obj [(''name'', Str ''i-0a1''), (''ports'', Arr [])])"
    and "lacks_ports (Obj [(''name'', Str ''i-0a1''), (''ports'', Arr [])])"
    by (simp_all add: lacks_instance_id_tag_def lacks_ports_def)
  with upsert_rejects_invalid
         [of "Obj [(''name'', Str ''i-0a1''), (''ports'', Arr [])]" "conflict_remote Null" no_client "[]"]
  show ?thesis
    by simp
qed

text \<open>
  An input that meets both requirements gets past the validation. Into an empty
  inventory the upsert creates the service, the service instance with its ports and
  default role, the machine and the node, and binds the address.
\<close>

lemma upsert_into_empty_inventory:
  "fst (upsertNodeAsync (empty_inventory (Inr node7)) no_client upsert_params []) = Inr node7 \<and>
   map (\<lambda>rq. (rq_method rq, rq_resource rq))
     (snd (upsertNodeAsync (empty_inventory (Inr node7)) no_client upsert_params [])) =
     [(''GET'', ''nodes/search/findByName''),
      (''GET'', ''services/search/findByKey''), (''POST'', ''services/''),
      (''GET'', ''serviceInstances/search/findByKey''), (''POST'', ''serviceInstances/''),
      (''POST'', ''serviceInstancePorts/''), (''POST'', ''serviceInstancePorts/''),
      (''POST'', ''ipAddressRoles/''),
      (''GET'', ''machines/search/findByName''), (''POST'', ''machines/''),
      (''POST'', ''nodes/''),
      (''GET'', ''nodes/7/ipAddresses''), (''GET'', ''serviceInstances/3/ipAddressRoles''),
      (''POST'', ''nodeIpAddresses'')]"
  by code_simp

text \<open>
  The same upsert when another client creates the node first, so that the create of
  the node is answered with a conflict: the upsert is rejected.
\<close>

lemma upsert_loses_race:
  "fst (upsertNodeAsync (empty_inventory (Inl (HttpError 409))) no_client upsert_params []) =
     Inl (ReferenceError ''params'')"
  by code_simp

text \<open>
  Whatever the inventory and the input: once the create is answered with a conflict,
  the operation is rejected with the \<^verbatim>\<open>ReferenceError\<close>, and the create is the only
  request made.
\<close>

lemma createMachineAsync_conflict:
  assumes "remote log (create_request ''machines/'' (if truthy params then params else Undefined))
             = Inl (HttpError 409)"
    and "params \<noteq> Null" and "params \<noteq> Undefined"
  shows "createMachineAsync remote params log =
           (Inl (ReferenceError ''options''),
            log @ [create_request ''machines/'' (if truthy params then params else Undefined)])"
proof -
  from get_prop_defined [OF assms(2,3)] obtain name where "get_prop params ''name'' = Inr name"
    by blast
  with assms(1) show ?thesis
    by (simp add: createMachineAsync_def getMachinesByNameAsync_def io_defs seisoRequest_def
        statusCode_def ERROR_CONFLICT_def read_identifier_def module_scope_def
        create_request_def Let_def)
qed

lemma createNodeAsync_conflict:
  assumes "get_prop nodeRequest ''name'' = Inr name"
    and "get_prop nodeRequest ''serviceInstanceLink'' = Inr serviceInstanceLink"
    and "get_prop nodeRequest ''machine'' = Inr machine"
    and "remote log (create_request ''nodes/''
           (Obj [(''name'', name), (''serviceInstance'', serviceInstanceLink), (''machine'', machine)]))
           = Inl (HttpError 409)"
  shows "createNodeAsync remote nodeRequest log =
           (Inl (ReferenceError ''params''),
            log @ [create_request ''nodes/''
                     (Obj [(''name'', name), (''serviceInstance'', serviceInstanceLink),
                           (''machine'', machine)])])"
  using assms
  by (simp add: createNodeAsync_def io_defs seisoRequest_def statusCode_def ERROR_CONFLICT_def
      read_identifier_def module_scope_def create_request_def Let_def)

text \<open>
  C1. The code at the failing input: the create meets a conflict (409), and a lookup
  would answer with \<open>found\<close>, whatever that is (one record, none, several). Neither
  \<^verbatim>\<open>createNodeAsync\<close> nor \<^verbatim>\<open>createMachineAsync\<close> makes the lookup: the only
  request is the create, and the operation is rejected with the
  \<^verbatim>\<open>ReferenceError\<close> of an identifier that the handler reads and nothing declares
  (\<^verbatim>\<open>params\<close> in the first, \<^verbatim>\<open>options\<close> in the second).
\<close>

theorem create_conflict_never_refetches:
  "createNodeAsync (conflict_remote found) node_request log =
     (Inl (ReferenceError ''params''),
      log @ [create_request ''nodes/''
               (Obj [(''name'', Str ''i-0a1''),
                     (''serviceInstance'', Str ''https://seiso/serviceInstances/3''),
                     (''machine'', Str ''https://seiso/machines/5'')])]) \<and>
   createMachineAsync (conflict_remote found) machine_params log =
     (Inl (ReferenceError ''options''), log @ [create_request ''machines/'' machine_params])"
proof -
  have n: "createNodeAsync (conflict_remote found) node_request log =
     (Inl (ReferenceError ''params''),
      log @ [create_request ''nodes/''
               (Obj [(''name'', Str ''i-0a1''),
                     (''serviceInstance'', Str ''https://seiso/serviceInstances/3''),
                     (''machine'', Str ''https://seiso/machines/5'')])])"
    by (simp add: createNodeAsync_def io_defs seisoRequest_def conflict_remote_def
        node_request_def statusCode_def ERROR_CONFLICT_def read_identifier_def module_scope_def
        create_request_def Let_def)
  have m: "createMachineAsync (conflict_remote found) machine_params log =
     (Inl (ReferenceError ''options''), log @ [create_request ''machines/'' machine_params])"
    by (simp add: createMachineAsync_def getMachinesByNameAsync_def io_defs seisoRequest_def
        conflict_remote_def machine_params_def statusCode_def ERROR_CONFLICT_def
        read_identifier_def module_scope_def create_request_def Let_def)
  from n m show ?thesis ..
qed

theorem create_conflict_never_refetches_witness:
  "fst (createNodeAsync (conflict_remote node7) node_request []) = Inl (ReferenceError ''params'') \<and>
   fst (createMachineAsync (conflict_remote machine5) machine_params []) =
     Inl (ReferenceError ''options'')"
  using create_conflict_never_refetches [of node7 "[]"]
    create_conflict_never_refetches [of machine5 "[]"]
  by simp

section \<open>Properties of the IP address reconciliation\<close>

lemma create_ip_accepted:
  "createNodeIpAddress (ip_remote existing) node7 default_role address log =
     (Inr Null, log @ [create_ip_request address])"
  by (simp add: createNodeIpAddress_def io_defs seisoRequest_def ip_remote_def node7_def
      default_role_def rest_record_def getRestRecordLink_def unwrap_embedded_def
      create_ip_request_def Let_def)

lemma settle_each_same:
  assumes "\<And>log. p log = (Inr v, log @ [rq])"
  shows "settle_each (map (\<lambda>_. p) xs) log =
           (Inr (replicate (length xs) (Inr v)), log @ replicate (length xs) rq)"
proof (induction xs arbitrary: log)
  case Nil
  show ?case by (simp add: resolve_def)
next
  case (Cons x xs)
  have 1: "p log = (Inr v, log @ [rq])"
    by (rule assms)
  have 2: "settle_each (map (\<lambda>_. p) xs) (log @ [rq]) =
             (Inr (replicate (length xs) (Inr v)), (log @ [rq]) @ replicate (length xs) rq)"
    by (rule Cons.IH)
  show ?case
    by (simp add: 1 2)
qed

lemma default_role_found:
  "getDefaultIpAddressRole (ip_remote existing) (Str ''3'') log =
     (Inr default_role, log @ [list_request ''serviceInstances/3/ipAddressRoles''])"
  by (simp add: getDefaultIpAddressRole_def io_defs seisoRequest_def ip_remote_def
      list_response_def unwrap_embedded_def join_path_def default_role_def rest_record_def
      list_request_def Let_def)

lemma promise_all_replicate: "promise_all (replicate n (Inr v)) = Inr (replicate n v)"
  by (induction n) simp_all

lemma filter_not_indexOf_Nil: "filter (not_indexOf []) ds = ds"
  by (simp add: not_indexOf_def)

text \<open>
  C2. The code at the failing inputs: node 7 has no address yet and \<open>ds\<close> are the
  desired ones. The requests are the list of the node's addresses, the list of the
  roles, and then one create for every desired address, each of them carrying the
  last desired address: with two or more desired addresses the last is created
  several times and none of the others is created.
\<close>

theorem sync_creates_last_address_only:
  assumes "ds \<noteq> []"
  shows "syncNodeIpAddressesAsync (ip_remote []) (Str ''3'') node7 (Arr ds) [] =
           (Inr node7,
            [list_request ''nodes/7/ipAddresses'', list_request ''serviceInstances/3/ipAddressRoles'']
              @ replicate (length ds) (create_ip_request (last ds)))"
proof -
  have existing:
    "seisoRequest (ip_remote []) (join_path [Str ''nodes'', Str ''7'', Str ''ipAddresses''])
       Null None ''nodeIpAddresses'' [] =
     (Inr (Arr []), [list_request ''nodes/7/ipAddresses''])"
    by (simp add: seisoRequest_def ip_remote_def list_response_def unwrap_embedded_def
        join_path_def list_request_def Let_def)
  have rid: "getRestRecordId node7 = Inr (Str ''7'')"
    by (simp add: getRestRecordId_def getRestRecordLink_def node7_def rest_record_def)
  show ?thesis
    using assms
    by (simp add: syncNodeIpAddressesAsync_def and_then_def attempt_def rid existing
        resolve_def filter_not_indexOf_Nil default_role_found Let_def array_like_items_def
        settle_each_same [OF create_ip_accepted] promise_all_replicate)
qed

theorem sync_creates_last_address_only_witness:
  "snd (syncNodeIpAddressesAsync (ip_remote []) (Str ''3'') node7
          (Arr [Str ''10.0.0.1'', Str ''10.0.0.2'']) []) =
     [list_request ''nodes/7/ipAddresses'', list_request ''serviceInstances/3/ipAddressRoles'',
      create_ip_request (Str ''10.0.0.2''), create_ip_request (Str ''10.0.0.2'')]"
proof -
  have "[Str ''10.0.0.1'', Str ''10.0.0.2''] \<noteq> []"
    by simp
  from sync_creates_last_address_only [OF this] show ?thesis
    by (simp add: numeral_2_eq_2)
qed

text \<open>
  The example of the specification, where a single address is missing: existing
  10.0.0.1 and 10.0.0.2, desired 10.0.0.2 and 10.0.0.3. One delete (of the record of
  10.0.0.1), one create (of 10.0.0.3), nothing for 10.0.0.2.
\<close>

lemma sync_example_converges:
  "syncNodeIpAddressesAsync
     (ip_remote [ip_record ''1'' ''10.0.0.1'', ip_record ''2'' ''10.0.0.2''])
     (Str ''3'') node7 (Arr [Str ''10.0.0.2'', Str ''10.0.0.3'']) [] =
   (Inr node7,
    [list_request ''nodes/7/ipAddresses'', delete_ip_request ''1'',
     list_request ''serviceInstances/3/ipAddressRoles'', create_ip_request (Str ''10.0.0.3'')])"
  by code_simp

section \<open>Properties of the rotation handlers\<close>

lemma instance_is_object:
  "instance_details i \<noteq> Undefined" "instance_details i \<noteq> Null" "is_object (instance_details i)"
  by (simp_all add: instance_details_def is_object_def)

lemma valid_instance:
  "validateMessage (set_prop (instance_details ''i-0a1'') ''state'' st) = Inr []"
  by (simp add: validateMessage_def instance_details_def)

lemma node_of_instance:
  "instanceToNode (set_prop (instance_details ''i-0a1'') ''state'' st) =
     Inr (Obj [(''name'', Str ''i-0a1''),
               (''machineName'', Str ''ip-10-0-0-1.ec2.internal''),
               (''hostname'', Str ''ip-10-0-0-1''),
               (''aggregateRotationStatus'', Bool False),
               (''tags'', Obj [(''AWS Instance ID'', Str ''i-0a1'')])])"
  by (simp add: instanceToNode_def instance_details_def)

text \<open>The lookup finds the node; whatever becomes of the patch, the chain fulfils.\<close>

lemma lookup_and_patch_drops_patch:
  "lookup_and_patch (rotation_remote known_nodes patched)
     (Obj [(''name'', Str ''i-0a1''),
           (''machineName'', Str ''ip-10-0-0-1.ec2.internal''),
           (''hostname'', Str ''ip-10-0-0-1''),
           (''aggregateRotationStatus'', Bool False),
           (''tags'', Obj [(''AWS Instance ID'', Str ''i-0a1'')])]) (Str st) log =
     (Inr Undefined, log @ [lookup_request ''i-0a1'', patch_request ''i-0a1'' st])"
  by (simp add: lookup_and_patch_def io_defs findNodesAsync_def seisoRequest_def
      rotation_remote_def known_nodes_def rest_record_def unwrap_embedded_def check_single_def
      getRestRecordId_def getRestRecordLink_def patchNodeAggregateRotationStatus_def
      lookup_request_def patch_request_def ERROR_NOT_FOUND_def statusCode_def Let_def
      split: sum.splits error.splits)

lemma rotateInstance_fulfils:
  "rotateInstance (rotation_remote known_nodes patched) [] (instance_details ''i-0a1'') (Str st) log =
     (Inr Fulfilled, log @ [lookup_request ''i-0a1'', patch_request ''i-0a1'' st])"
  by (simp add: rotateInstance_def valid_instance node_of_instance map_mappers_done
      lookup_and_patch_drops_patch Let_def instance_is_object)

text \<open>
  C4. The code at the failing input: a rotation event with one instance; the lookup
  finds its node, and the patch of the rotation status fails with \<open>failure\<close>. The
  update of the instance has not succeeded, and the handler deletes the message all
  the same.
\<close>

theorem failed_patch_still_acknowledged:
  "instanceRotateInHandler (rotation_remote known_nodes (Inl failure)) [] rotation_statuses
     \<lparr>deletionToken = token, instances = Arr [instance_details ''i-0a1'']\<rparr> [] =
   \<lparr>h_thrown = None, h_outcomes = [Fulfilled],
    h_requests = [lookup_request ''i-0a1'',
                  patch_request ''i-0a1'' ''https://seiso/rotationStatuses/1''],
    h_deleted = [token]\<rparr>"
  by (simp add: instanceRotateInHandler_def rotation_statuses_def rest_record_def rotate_all_def
      rotateInstance_fulfils batch_outcome_def instance_is_object)

theorem failed_patch_still_acknowledged_witness:
  "h_deleted
     (instanceRotateInHandler (rotation_remote known_nodes (Inl (HttpError 500))) []
        rotation_statuses
        \<lparr>deletionToken = ''rh-7'', instances = Arr [instance_details ''i-0a1'']\<rparr> []) = [''rh-7'']"
  using failed_patch_still_acknowledged [of "HttpError 500" "''rh-7''"] by simp

text \<open>
  The example of the specification: three instances, the lookup of the second finds
  no node. The message is not deleted, and the other two are patched.
\<close>

lemma partial_batch_not_acknowledged:
  "instanceRotateInHandler (rotation_remote known_nodes (Inr Null)) [] rotation_statuses
     \<lparr>deletionToken = ''rh-8'',
      instances = Arr [instance_details ''i-0a1'', instance_details ''i-0b2'',
                       instance_details ''i-0c3'']\<rparr> [] =
   \<lparr>h_thrown = None,
    h_outcomes = [Fulfilled,
                  RejectedWith (Thrown ''No matching Node Records found for instance''),
                  Fulfilled],
    h_requests = [lookup_request ''i-0a1'',
                  patch_request ''i-0a1'' ''https://seiso/rotationStatuses/1'',
                  lookup_request ''i-0b2'',
                  lookup_request ''i-0c3'',
                  patch_request ''i-0c3'' ''https://seiso/rotationStatuses/1''],
    h_deleted = []\<rparr>"
  by code_simp

text \<open>A lookup that gives no match or several is rejected, and nothing is patched.\<close>

lemma check_single_rejects:
  "length ns \<noteq> 1 \<Longrightarrow> \<exists>e. check_single (Arr ns) = Inl e"
  by (cases ns) (auto simp: check_single_def)

lemma batch_outcome_Fulfilled:
  "batch_outcome outs = Fulfilled \<longleftrightarrow> (\<forall>out \<in> set outs. out = Fulfilled)"
proof (induction outs)
  case Nil
  show ?case by (simp add: batch_outcome_def)
next
  case (Cons out outs)
  then show ?case
    by (cases out) (auto simp: batch_outcome_def split: list.splits if_splits)
qed

section \<open>The conversions at work\<close>

lemma to_number_examples:
  "to_number (Str ''443'') = Some 443 \<and> to_number (Arr [Num 443]) = Some 443 \<and>
   to_number (Str '' 22 '') = Some 22 \<and> to_number (Str ''-7'') = Some (- 7) \<and>
   to_number (Str []) = Some 0 \<and> to_number (Arr []) = Some 0 \<and>
   to_number (Str ''web'') = None \<and> to_number (Arr [Num 1, Num 2]) = None"
  by code_simp

lemma getProtocolFromPort_converts:
  "getProtocolFromPort (Num 443) = Str ''https'' \<and>
   getProtocolFromPort (Str ''443'') = Str ''https'' \<and>
   getProtocolFromPort (Arr [Num 443]) = Str ''https'' \<and>
   getProtocolFromPort (Str ''8080'') = Str ''http'' \<and>
   getProtocolFromPort (Num (- 7)) = Null \<and>
   getProtocolFromPort Undefined = Null"
  by code_simp

lemma check_single_converts:
  "check_single (Obj [(''length'', Null)]) =
     Inl (Thrown ''No matching Node Records found for instance'') \<and>
   check_single (Obj [(''length'', Bool False)]) =
     Inl (Thrown ''No matching Node Records found for instance'') \<and>
   check_single (Obj [(''length'', Str ''0'')]) =
     Inl (Thrown ''No matching Node Records found for instance'') \<and>
   check_single (Obj [(''length'', Str ''2'')]) =
     Inl (Thrown ''Multiple matching Node Records found for instance'') \<and>
   check_single (Obj [(''name'', Str ''i-0a1'')]) = Inr (Obj [(''name'', Str ''i-0a1'')])"
  by code_simp

lemma link_or_null_inherited:
  "link_or_null [] (Str ''constructor'') = Inl TypeError \<and>
   link_or_null [] (Str ''aws-test'') = Inr Null \<and>
   link_or_null [(''aws-test'', node7)] (Str ''aws-test'') = Inr (Str ''https://seiso/nodes/7'')"
  by code_simp

text \<open>
  Desired addresses given as a string: its characters are the addresses to add, and
  here too every create carries the last of them.
\<close>

lemma sync_string_of_addresses:
  "syncNodeIpAddressesAsync (ip_remote []) (Str ''3'') node7 (Str ''ab'') [] =
     (Inr node7,
      [list_request ''nodes/7/ipAddresses'', list_request ''serviceInstances/3/ipAddressRoles'',
       create_ip_request (Str ''b''), create_ip_request (Str ''b'')])"
  by code_simp

lemma sync_without_addresses:
  "syncNodeIpAddressesAsync (ip_remote []) (Str ''3'') node7 (Num 5) [] =
     (Inr node7, [list_request ''nodes/7/ipAddresses'']) \<and>
   syncNodeIpAddressesAsync (ip_remote []) (Str ''3'') node7 Undefined [] =
     (Inl TypeError, [list_request ''nodes/7/ipAddresses'']) \<and>
   syncNodeIpAddressesAsync (ip_remote [ip_record ''1'' ''10.0.0.1'']) (Str ''3'') node7 (Num 5) [] =
     (Inl TypeError, [list_request ''nodes/7/ipAddresses''])"
  by code_simp

end
